theory Spec2Isabelle
  imports Complex_Main
begin

section \<open>JavaScript values\<close>

text \<open>
  A string is the list of its UTF-8 bytes: equality, \<^verbatim>\<open>includes\<close> and
  \<^verbatim>\<open>split\<close> on an ASCII separator agree with JavaScript's on well-formed strings.
  A \<^verbatim>\<open>Date\<close> that holds a valid instant is its epoch value in milliseconds.
  A number that the code only ever uses as an integer is an \<open>int\<close>; an upstream score
  or item level is a \<open>rat\<close>. A nullable or optional value is an \<open>option\<close>
  (\<open>None\<close> for \<^verbatim>\<open>null\<close> and \<^verbatim>\<open>undefined\<close>). Primary keys
  (\<^verbatim>\<open>gen_random_uuid()\<close>) are natural numbers drawn from a counter kept in the
  database state.
\<close>

type_synonym timestamp = int
type_synonym rowid = nat

text \<open>\<^verbatim>\<open>x || 0\<close> on a nullable number.\<close>

fun or0 :: "int option \<Rightarrow> int" where
  "or0 None = 0"
| "or0 (Some n) = n"

text \<open>\<^verbatim>\<open>x || d\<close> on an optional number: \<open>0\<close> is falsy.\<close>

fun orNum :: "int option \<Rightarrow> int \<Rightarrow> int" where
  "orNum None d = d"
| "orNum (Some n) d = (if n = 0 then d else n)"

text \<open>Truthiness of an optional string: the empty string is falsy.\<close>

fun truthyStr :: "string option \<Rightarrow> bool" where
  "truthyStr None = False"
| "truthyStr (Some s) = (s \<noteq> [])"

text \<open>\<^verbatim>\<open>s || d\<close> on an optional string.\<close>

definition orStr :: "string option \<Rightarrow> string \<Rightarrow> string" where
  "orStr s d = (if truthyStr s then the s else d)"

text \<open>\<^verbatim>\<open>a || b\<close> where the result stays optional (\<^verbatim>\<open>... || null\<close>).\<close>

definition orElseStr :: "string option \<Rightarrow> string option \<Rightarrow> string option" where
  "orElseStr a b = (if truthyStr a then a else if truthyStr b then b else None)"

text \<open>\<^verbatim>\<open>a ?? b\<close>.\<close>

fun nullish :: "'a option \<Rightarrow> 'a option \<Rightarrow> 'a option" where
  "nullish None b = b"
| "nullish (Some a) b = Some a"

text \<open>\<^verbatim>\<open>Math.round\<close>: the nearest integer, halves upwards.\<close>

definition Math_round :: "rat \<Rightarrow> int" where
  "Math_round x = \<lfloor>x + 1 / 2\<rfloor>"

text \<open>Decimal rendering of an integer inside a template string; \<open>showDigits\<close> is
  only applied to numbers that are not negative.\<close>

function showDigits :: "int \<Rightarrow> string" where
  "showDigits n = (if n < 10 then [''0123456789'' ! nat n]
                   else showDigits (n div 10) @ [''0123456789'' ! nat (n mod 10)])"
  by pat_completeness auto
termination
  by (relation "measure nat") auto

declare showDigits.simps [simp del]

definition showInt :: "int \<Rightarrow> string" where
  "showInt i = (if i < 0 then CHR ''-'' # showDigits (- i) else showDigits i)"

text \<open>\<^verbatim>\<open>xs.join(sep)\<close>.\<close>

fun join :: "string \<Rightarrow> string list \<Rightarrow> string" where
  "join sep [] = []"
| "join sep [x] = x"
| "join sep (x # y # ys) = x @ sep @ join sep (y # ys)"

text \<open>\<^verbatim>\<open>toLowerCase\<close> and \<^verbatim>\<open>toUpperCase\<close> on the letters of ASCII and, for
  lower case, of Latin-1 (the two-byte sequences that start with \<open>0xC3\<close>); every other
  byte is kept.\<close>

definition lowerAscii :: "char \<Rightarrow> char" where
  "lowerAscii c =
     (case map_of (zip ''ABCDEFGHIJKLMNOPQRSTUVWXYZ'' ''abcdefghijklmnopqrstuvwxyz'') c of
        Some l \<Rightarrow> l | None \<Rightarrow> c)"

definition upperAscii :: "char \<Rightarrow> char" where
  "upperAscii c =
     (case map_of (zip ''abcdefghijklmnopqrstuvwxyz'' ''ABCDEFGHIJKLMNOPQRSTUVWXYZ'') c of
        Some u \<Rightarrow> u | None \<Rightarrow> c)"

definition lowerLatin :: "char \<Rightarrow> char" where
  "lowerLatin c =
     (case map_of (zip
        [CHR 0x80, CHR 0x81, CHR 0x82, CHR 0x83, CHR 0x84, CHR 0x85, CHR 0x86, CHR 0x87,
         CHR 0x88, CHR 0x89, CHR 0x8A, CHR 0x8B, CHR 0x8C, CHR 0x8D, CHR 0x8E, CHR 0x8F,
         CHR 0x90, CHR 0x91, CHR 0x92, CHR 0x93, CHR 0x94, CHR 0x95, CHR 0x96,
         CHR 0x98, CHR 0x99, CHR 0x9A, CHR 0x9B, CHR 0x9C, CHR 0x9D, CHR 0x9E]
        [CHR 0xA0, CHR 0xA1, CHR 0xA2, CHR 0xA3, CHR 0xA4, CHR 0xA5, CHR 0xA6, CHR 0xA7,
         CHR 0xA8, CHR 0xA9, CHR 0xAA, CHR 0xAB, CHR 0xAC, CHR 0xAD, CHR 0xAE, CHR 0xAF,
         CHR 0xB0, CHR 0xB1, CHR 0xB2, CHR 0xB3, CHR 0xB4, CHR 0xB5, CHR 0xB6,
         CHR 0xB8, CHR 0xB9, CHR 0xBA, CHR 0xBB, CHR 0xBC, CHR 0xBD, CHR 0xBE]) c of
        Some l \<Rightarrow> l | None \<Rightarrow> c)"

fun toLowerCase :: "string \<Rightarrow> string" where
  "toLowerCase [] = []"
| "toLowerCase [c] = [lowerAscii c]"
| "toLowerCase (c # d # cs) =
     (if c = CHR 0xC3 then c # lowerLatin d # toLowerCase cs
      else lowerAscii c # toLowerCase (d # cs))"

definition toUpperCase :: "string \<Rightarrow> string" where
  "toUpperCase s = map upperAscii s"

text \<open>\<^verbatim>\<open>s.replace(/xy/g, r)\<close> for a two-byte pattern.\<close>

fun replacePair :: "char \<Rightarrow> char \<Rightarrow> char \<Rightarrow> string \<Rightarrow> string" where
  "replacePair x y r [] = []"
| "replacePair x y r [c] = [c]"
| "replacePair x y r (c # d # cs) =
     (if c = x \<and> d = y then r # replacePair x y r cs else c # replacePair x y r (d # cs))"

section \<open>Tables (shared/schema.ts)\<close>

text \<open>The \<^verbatim>\<open>players\<close> table. The columns \<^verbatim>\<open>joinDate\<close> and
  \<^verbatim>\<open>rioSyncPriority\<close> are never read or written by the code embedded here and
  are left out.\<close>

record Player =
  p_id :: rowid
  p_name :: string
  p_realm :: string
  p_class :: string
  p_spec :: "string option"
  p_race :: "string option"
  p_level :: "int option"
  p_itemLevel :: "int option"
  p_mythicScore :: "int option"
  p_guildRank :: "string option"
  p_avatarUrl :: "string option"
  p_isActive :: "bool option"
  p_lastSeen :: "timestamp option"
  p_messagesCount :: "int option"
  p_lastMessage :: "string option"
  p_lastMessageTime :: "timestamp option"
  p_lastRioSync :: "timestamp option"
  p_totalRunsTracked :: "int option"
  p_mostPlayedDungeon :: "string option"
  p_runsInTime :: "int option"
  p_runsOverTime :: "int option"
  p_runsByLevelLow :: "int option"
  p_runsByLevelMid :: "int option"
  p_runsByLevelHigh :: "int option"
  p_runsByLevelElite :: "int option"
  p_highestKeyLevel :: "int option"

text \<open>The \<^verbatim>\<open>mythic_runs\<close> table (\<^verbatim>\<open>role\<close> and \<^verbatim>\<open>spec\<close> are never
  written). \<open>mr_timerPercent\<close> is \<open>None\<close> when the quotient computed by the caller is
  not finite.\<close>

record MythicRun =
  mr_id :: rowid
  mr_playerId :: rowid
  mr_dungeon :: string
  mr_keyLevel :: int
  mr_completionTime :: int
  mr_timerPercent :: "rat option"
  mr_score :: int
  mr_affixes :: "string list option"
  mr_timestamp :: timestamp
  mr_url :: "string option"
  mr_clearTimeMs :: "int option"
  mr_parTimeMs :: "int option"

text \<open>The \<^verbatim>\<open>guild_mythic_runs\<close> table.\<close>

record GuildMythicRun =
  gm_id :: rowid
  gm_runKey :: string
  gm_dungeon :: string
  gm_mythicLevel :: int
  gm_completedAt :: timestamp
  gm_clearTimeMs :: "int option"
  gm_parTimeMs :: "int option"
  gm_score :: "int option"
  gm_keystoneUpgrades :: "int option"
  gm_guildPlayerIds :: "rowid list"
  gm_guildPlayerNames :: "string list"
  gm_totalGuildMembers :: int

text \<open>The \<^verbatim>\<open>activity_events\<close> table.\<close>

record ActivityEvent =
  ae_id :: rowid
  ae_type :: string
  ae_playerId :: rowid
  ae_playerName :: string
  ae_playerClass :: string
  ae_title :: string
  ae_description :: "string option"
  ae_value :: "int option"
  ae_timestamp :: timestamp

text \<open>The columns of \<^verbatim>\<open>guild_settings\<close> that the upload handler uses.\<close>

record GuildSettings =
  gs_realm :: string
  gs_currentUploadSession :: "string option"
  gs_uploadSessionStartedAt :: "timestamp option"
  gs_uploadSessionProcessedCount :: "int option"
  gs_lastUploadCompletedAt :: "timestamp option"

datatype SessionPhase = phase_start | phase_chunk | phase_final

datatype RosterMode = mode_delta | mode_full | mode_no_change

text \<open>
  The \<^verbatim>\<open>uploader_statuses\<close> table. Its declaration is not part of
  shared/schema.ts as given; the columns are the ones server/storage.ts and
  server/routes.ts read and write. The values a new row gets for the columns that
  \<^verbatim>\<open>ensureUploaderStatus\<close> does not set are a parameter (\<open>dflt\<close>) of every
  function that may create the row.
\<close>

record UploaderStatus =
  us_id :: rowid
  us_uploaderId :: string
  us_lastSessionId :: "string option"
  us_lastBatchIndex :: "int option"
  us_expectedBatchIndex :: "int option"
  us_status :: "string option"
  us_totalBatches :: "int option"
  us_lastError :: "string option"
  us_lastPhase :: "SessionPhase option"
  us_updatedAt :: "timestamp option"

text \<open>
  The database state. \<open>guildSettings\<close> is the first row of the settings table (the
  only one ever read or updated). The tables \<^verbatim>\<open>activity_snapshots\<close> and
  \<^verbatim>\<open>admin_audit_log\<close> are written by the upload handler and read by nothing
  embedded here; they are left out. Every statement is taken to succeed: a failure of the
  database itself (a lost connection, a value too long for its column) is outside the
  model.
\<close>

record DB =
  players :: "Player list"
  mythicRuns :: "MythicRun list"
  guildMythicRuns :: "GuildMythicRun list"
  activityEvents :: "ActivityEvent list"
  uploaderStatuses :: "UploaderStatus list"
  guildSettings :: "GuildSettings option"
  nextId :: rowid

section \<open>Player storage (server/storage.ts)\<close>

text \<open>\<^verbatim>\<open>getPlayer\<close>: the first row with the id.\<close>

definition getPlayer :: "rowid \<Rightarrow> DB \<Rightarrow> Player option" where
  "getPlayer pid db = find (\<lambda>p. p_id p = pid) (players db)"

text \<open>\<^verbatim>\<open>getPlayerByName\<close>: the first row with the name and the realm
  (SQL equality, case-sensitive).\<close>

definition getPlayerByName :: "string \<Rightarrow> string \<Rightarrow> DB \<Rightarrow> Player option" where
  "getPlayerByName n r db = find (\<lambda>p. p_name p = n \<and> p_realm p = r) (players db)"

text \<open>\<^verbatim>\<open>updatePlayer\<close>: \<^verbatim>\<open>UPDATE players SET ... WHERE id = ?\<close>; the
  \<^verbatim>\<open>SET\<close> clause is a function on rows.\<close>

definition updatePlayer :: "rowid \<Rightarrow> (Player \<Rightarrow> Player) \<Rightarrow> DB \<Rightarrow> DB" where
  "updatePlayer pid upd db =
     db\<lparr>players := map (\<lambda>p. if p_id p = pid then upd p else p) (players db)\<rparr>"

text \<open>The argument of \<^verbatim>\<open>upsertPlayer\<close>: \<open>None\<close> is a key that is absent from the
  object.\<close>

record PlayerData =
  pd_name :: string
  pd_realm :: string
  pd_class :: string
  pd_spec :: "string option"
  pd_race :: "string option"
  pd_level :: "int option"
  pd_itemLevel :: "int option"
  pd_mythicScore :: "int option"
  pd_guildRank :: "string option"
  pd_messagesCount :: "int option"
  pd_isActive :: "bool option"

text \<open>\<^verbatim>\<open>createPlayer\<close> as \<^verbatim>\<open>upsertPlayer\<close> calls it: the listed columns come
  from the argument, the others get the defaults of the table declaration.\<close>

definition createPlayer :: "PlayerData \<Rightarrow> DB \<Rightarrow> DB" where
  "createPlayer pd db =
     db\<lparr>players := players db @
           [\<lparr>p_id = nextId db,
             p_name = pd_name pd,
             p_realm = pd_realm pd,
             p_class = pd_class pd,
             p_spec = pd_spec pd,
             p_race = pd_race pd,
             p_level = Some (case pd_level pd of Some l \<Rightarrow> l | None \<Rightarrow> 80),
             p_itemLevel = Some (case pd_itemLevel pd of Some l \<Rightarrow> l | None \<Rightarrow> 0),
             p_mythicScore = Some (case pd_mythicScore pd of Some l \<Rightarrow> l | None \<Rightarrow> 0),
             p_guildRank = Some (case pd_guildRank pd of Some g \<Rightarrow> g | None \<Rightarrow> ''Member''),
             p_avatarUrl = None,
             p_isActive = Some (case pd_isActive pd of Some a \<Rightarrow> a | None \<Rightarrow> True),
             p_lastSeen = None,
             p_messagesCount = Some (case pd_messagesCount pd of Some m \<Rightarrow> m | None \<Rightarrow> 0),
             p_lastMessage = None,
             p_lastMessageTime = None,
             p_lastRioSync = None,
             p_totalRunsTracked = Some 0,
             p_mostPlayedDungeon = None,
             p_runsInTime = Some 0,
             p_runsOverTime = Some 0,
             p_runsByLevelLow = Some 0,
             p_runsByLevelMid = Some 0,
             p_runsByLevelHigh = Some 0,
             p_runsByLevelElite = Some 0,
             p_highestKeyLevel = Some 0\<rparr>],
        nextId := Suc (nextId db)\<rparr>"

text \<open>The \<^verbatim>\<open>updates\<close> object of \<^verbatim>\<open>upsertPlayer\<close>: each key of the argument
  that is not \<^verbatim>\<open>undefined\<close> overwrites the column.\<close>

definition upsertUpdates :: "PlayerData \<Rightarrow> Player \<Rightarrow> Player" where
  "upsertUpdates pd row =
     row\<lparr>p_spec := (case pd_spec pd of Some v \<Rightarrow> Some v | None \<Rightarrow> p_spec row),
         p_race := (case pd_race pd of Some v \<Rightarrow> Some v | None \<Rightarrow> p_race row),
         p_level := (case pd_level pd of Some v \<Rightarrow> Some v | None \<Rightarrow> p_level row),
         p_itemLevel := (case pd_itemLevel pd of Some v \<Rightarrow> Some v | None \<Rightarrow> p_itemLevel row),
         p_mythicScore :=
           (case pd_mythicScore pd of Some v \<Rightarrow> Some v | None \<Rightarrow> p_mythicScore row),
         p_guildRank := (case pd_guildRank pd of Some v \<Rightarrow> Some v | None \<Rightarrow> p_guildRank row),
         p_messagesCount :=
           (case pd_messagesCount pd of Some v \<Rightarrow> Some v | None \<Rightarrow> p_messagesCount row),
         p_isActive := (case pd_isActive pd of Some v \<Rightarrow> Some v | None \<Rightarrow> p_isActive row)\<rparr>"

definition upsertPlayer :: "PlayerData \<Rightarrow> DB \<Rightarrow> DB" where
  "upsertPlayer pd db =
     (case getPlayerByName (pd_name pd) (pd_realm pd) db of
        Some existing \<Rightarrow> updatePlayer (p_id existing) (upsertUpdates pd) db
      | None \<Rightarrow> createPlayer pd db)"

definition updatePlayerLastSeen :: "string \<Rightarrow> string \<Rightarrow> timestamp \<Rightarrow> DB \<Rightarrow> DB" where
  "updatePlayerLastSeen n r lastSeen db =
     (case getPlayerByName n r db of
        Some existing \<Rightarrow> updatePlayer (p_id existing) (\<lambda>p. p\<lparr>p_lastSeen := Some lastSeen\<rparr>) db
      | None \<Rightarrow> db)"

text \<open>\<^verbatim>\<open>markAllPlayersInactive\<close>: the number of rows updated and the new state.\<close>

definition markAllPlayersInactive :: "DB \<Rightarrow> nat \<times> DB" where
  "markAllPlayersInactive db =
     (length (filter (\<lambda>p. p_isActive p = Some True) (players db)),
      db\<lparr>players := map (\<lambda>p. if p_isActive p = Some True then p\<lparr>p_isActive := Some False\<rparr> else p)
                         (players db)\<rparr>)"

text \<open>One iteration of the loop of \<^verbatim>\<open>deactivatePlayersByName\<close>:
  \<^verbatim>\<open>UPDATE players SET is_active = false WHERE name = ? AND realm = ? AND is_active = true\<close>.\<close>

definition deactivateOne :: "string \<times> string \<Rightarrow> nat \<times> DB \<Rightarrow> nat \<times> DB" where
  "deactivateOne nr acc =
     (let hit = (\<lambda>p. p_name p = fst nr \<and> p_realm p = snd nr \<and> p_isActive p = Some True);
          db = snd acc
      in (fst acc + length (filter hit (players db)),
          db\<lparr>players := map (\<lambda>p. if hit p then p\<lparr>p_isActive := Some False\<rparr> else p)
                             (players db)\<rparr>))"

definition deactivatePlayersByName :: "(string \<times> string) list \<Rightarrow> DB \<Rightarrow> nat \<times> DB" where
  "deactivatePlayersByName playerNames db =
     (if playerNames = [] then (0, db)
      else foldl (\<lambda>acc nr. deactivateOne nr acc) (0, db) playerNames)"

section \<open>Mythic-run storage (server/storage.ts)\<close>

text \<open>The argument of \<^verbatim>\<open>upsertMythicRun\<close> (the row without its id).\<close>

record InsertMythicRun =
  im_playerId :: rowid
  im_dungeon :: string
  im_keyLevel :: int
  im_completionTime :: int
  im_timerPercent :: "rat option"
  im_score :: int
  im_affixes :: "string list option"
  im_timestamp :: timestamp
  im_url :: "string option"
  im_clearTimeMs :: "int option"
  im_parTimeMs :: "int option"

text \<open>SQL \<^verbatim>\<open>DATE(t)\<close>: the calendar day of the instant, in UTC.\<close>

definition sqlDATE :: "timestamp \<Rightarrow> int" where
  "sqlDATE t = t div 86400000"

text \<open>The \<^verbatim>\<open>WHERE\<close> clause of the lookup in \<^verbatim>\<open>upsertMythicRun\<close>.\<close>

definition sameRunSlot :: "InsertMythicRun \<Rightarrow> MythicRun \<Rightarrow> bool" where
  "sameRunSlot ins r =
     (mr_playerId r = im_playerId ins \<and> mr_dungeon r = im_dungeon ins
      \<and> mr_keyLevel r = im_keyLevel ins
      \<and> sqlDATE (mr_timestamp r) = sqlDATE (im_timestamp ins))"

definition insertedRow :: "rowid \<Rightarrow> InsertMythicRun \<Rightarrow> MythicRun" where
  "insertedRow i ins =
     \<lparr>mr_id = i, mr_playerId = im_playerId ins, mr_dungeon = im_dungeon ins,
      mr_keyLevel = im_keyLevel ins, mr_completionTime = im_completionTime ins,
      mr_timerPercent = im_timerPercent ins, mr_score = im_score ins,
      mr_affixes = im_affixes ins, mr_timestamp = im_timestamp ins, mr_url = im_url ins,
      mr_clearTimeMs = im_clearTimeMs ins, mr_parTimeMs = im_parTimeMs ins\<rparr>"

text \<open>The \<^verbatim>\<open>SET\<close> clause of the overwrite in \<^verbatim>\<open>upsertMythicRun\<close>.\<close>

definition overwriteRun :: "InsertMythicRun \<Rightarrow> MythicRun \<Rightarrow> MythicRun" where
  "overwriteRun ins r =
     r\<lparr>mr_completionTime := im_completionTime ins,
       mr_timerPercent := im_timerPercent ins,
       mr_score := im_score ins,
       mr_affixes := im_affixes ins,
       mr_clearTimeMs := im_clearTimeMs ins,
       mr_parTimeMs := im_parTimeMs ins\<rparr>"

text \<open>\<^verbatim>\<open>upsertMythicRun\<close>: the returned row (the first element of the
  \<^verbatim>\<open>returning()\<close> list) and the new state. The lookup has \<^verbatim>\<open>LIMIT 1\<close> and no
  order; rows are tried in table order.\<close>

definition upsertMythicRun :: "InsertMythicRun \<Rightarrow> DB \<Rightarrow> MythicRun option \<times> DB" where
  "upsertMythicRun ins db =
     (case find (sameRunSlot ins) (mythicRuns db) of
        Some existing \<Rightarrow>
          if im_score ins > mr_score existing then
            (let rows = map (\<lambda>r. if mr_id r = mr_id existing then overwriteRun ins r else r)
                            (mythicRuns db)
             in (find (\<lambda>r. mr_id r = mr_id existing) rows, db\<lparr>mythicRuns := rows\<rparr>))
          else (Some existing, db)
      | None \<Rightarrow>
          (Some (insertedRow (nextId db) ins),
           db\<lparr>mythicRuns := mythicRuns db @ [insertedRow (nextId db) ins],
              nextId := Suc (nextId db)\<rparr>))"

text \<open>\<^verbatim>\<open>getMythicRuns(playerId)\<close>: the player's rows, newest first (rows with equal
  timestamps keep their table order).\<close>

definition getMythicRuns :: "rowid \<Rightarrow> DB \<Rightarrow> MythicRun list" where
  "getMythicRuns pid db =
     sort_key (\<lambda>r. - mr_timestamp r) (filter (\<lambda>r. mr_playerId r = pid) (mythicRuns db))"

text \<open>\<^verbatim>\<open>deleteOldMythicRuns\<close>: the number of rows deleted and the new state.\<close>

definition deleteOldMythicRuns :: "rowid \<Rightarrow> nat \<Rightarrow> DB \<Rightarrow> nat \<times> DB" where
  "deleteOldMythicRuns pid keepCount db =
     (let allRuns = map mr_id (getMythicRuns pid db)
      in if length allRuns \<le> keepCount then (0, db)
         else (let idsToDelete = drop keepCount allRuns
               in (length idsToDelete,
                   db\<lparr>mythicRuns := filter (\<lambda>r. mr_id r \<notin> set idsToDelete) (mythicRuns db)\<rparr>)))"

section \<open>Upstream runs (RaiderIORun)\<close>

record RosterMember =
  rm_name :: string
  rm_realm_slug :: string
  rm_realm_name :: string
  rm_class_name :: string

text \<open>A run as the scoring service reports it. \<open>rr_completed_at\<close> is the instant that
  \<^verbatim>\<open>new Date(run.completed_at)\<close> yields (the string is taken to parse); \<open>rr_url\<close>
  is \<open>None\<close> when the key is missing at run time; \<open>rr_affixes\<close> holds the affix
  names.\<close>

record RaiderIORun =
  rr_dungeon :: string
  rr_short_name :: string
  rr_mythic_level :: int
  rr_completed_at :: timestamp
  rr_clear_time_ms :: int
  rr_par_time_ms :: int
  rr_num_keystone_upgrades :: int
  rr_score :: rat
  rr_url :: "string option"
  rr_affixes :: "string list"
  rr_roster :: "RosterMember list option"

section \<open>Run deduplicator (server/modules/run-deduplicator.ts)\<close>

record ExistingRun =
  er_dungeon :: string
  er_keyLevel :: int
  er_timestamp :: timestamp
  er_url :: "string option"

record RunDeduplicator =
  urlSet :: "string set"
  compositeKeySet :: "string set"

text \<open>\<^verbatim>\<open>Date.UTC(year, month, day)\<close> of the instant: midnight of its UTC day.\<close>

definition normalizeTimestamp :: "timestamp \<Rightarrow> int" where
  "normalizeTimestamp t = (t div 86400000) * 86400000"

definition makeCompositeKey :: "string \<Rightarrow> int \<Rightarrow> timestamp \<Rightarrow> string" where
  "makeCompositeKey dungeon keyLevel t =
     dungeon @ ''-'' @ showInt keyLevel @ ''-'' @ showInt (normalizeTimestamp t)"

text \<open>The constructor.\<close>

definition newRunDeduplicator :: "ExistingRun list \<Rightarrow> RunDeduplicator" where
  "newRunDeduplicator existingRuns =
     \<lparr>urlSet = set (map (\<lambda>r. the (er_url r)) (filter (\<lambda>r. truthyStr (er_url r)) existingRuns)),
      compositeKeySet =
        set (map (\<lambda>r. makeCompositeKey (er_dungeon r) (er_keyLevel r) (er_timestamp r))
                 (filter (\<lambda>r. \<not> truthyStr (er_url r)) existingRuns))\<rparr>"

text \<open>\<^verbatim>\<open>isNewRun\<close>; the argument's \<^verbatim>\<open>ApiRun\<close> fields are those of the upstream
  run.\<close>

definition isNewRun :: "RunDeduplicator \<Rightarrow> RaiderIORun \<Rightarrow> bool" where
  "isNewRun d run =
     (let compositeKey =
            makeCompositeKey (rr_dungeon run) (rr_mythic_level run) (rr_completed_at run);
          existsByUrl = (truthyStr (rr_url run) \<and> the (rr_url run) \<in> urlSet d);
          existsByCompositeKey = (compositeKey \<in> compositeKeySet d)
      in \<not> existsByUrl \<and> \<not> existsByCompositeKey)"

definition markAsSeen :: "RunDeduplicator \<Rightarrow> RaiderIORun \<Rightarrow> RunDeduplicator" where
  "markAsSeen d run =
     (let compositeKey =
            makeCompositeKey (rr_dungeon run) (rr_mythic_level run) (rr_completed_at run)
      in if truthyStr (rr_url run) then d\<lparr>urlSet := insert (the (rr_url run)) (urlSet d)\<rparr>
         else d\<lparr>compositeKeySet := insert compositeKey (compositeKeySet d)\<rparr>)"

section \<open>Stats aggregator (server/modules/stats-aggregator.ts)\<close>

record StatsRun =
  sr_dungeon :: string
  sr_keyLevel :: int
  sr_clearTimeMs :: int
  sr_parTimeMs :: int

datatype levelBucket = runsByLevelLow | runsByLevelMid | runsByLevelHigh | runsByLevelElite

definition levelBucketOf :: "int \<Rightarrow> levelBucket" where
  "levelBucketOf keyLevel =
     (if keyLevel \<le> 6 then runsByLevelLow
      else if keyLevel \<le> 9 then runsByLevelMid
      else if keyLevel \<le> 14 then runsByLevelHigh
      else runsByLevelElite)"

text \<open>\<^verbatim>\<open>dungeonCounts[d] = (dungeonCounts[d] || 0) + 1\<close> on an object whose keys
  are kept in insertion order (dungeon names are not array-index strings).\<close>

fun bumpCount :: "string \<Rightarrow> (string \<times> int) list \<Rightarrow> (string \<times> int) list" where
  "bumpCount d [] = [(d, 1)]"
| "bumpCount d ((k, c) # rest) =
     (if k = d then (k, c + 1) # rest else (k, c) # bumpCount d rest)"

definition dungeonCounts :: "ExistingRun list \<Rightarrow> StatsRun \<Rightarrow> (string \<times> int) list" where
  "dungeonCounts existingRuns run =
     bumpCount (sr_dungeon run) (foldl (\<lambda>acc r. bumpCount (er_dungeon r) acc) [] existingRuns)"

text \<open>The loop over \<^verbatim>\<open>Object.entries(dungeonCounts)\<close> with the pair
  \<open>(mostPlayed, maxCount)\<close> as its state.\<close>

definition mostPlayedOf :: "string \<Rightarrow> (string \<times> int) list \<Rightarrow> string" where
  "mostPlayedOf start entries =
     fst (foldl (\<lambda>(mostPlayed, maxCount) (dungeon, count).
                   if count > maxCount then (dungeon, count) else (mostPlayed, maxCount))
                (start, 0) entries)"

definition bucketValue :: "levelBucket \<Rightarrow> Player \<Rightarrow> int option" where
  "bucketValue b p =
     (case b of runsByLevelLow \<Rightarrow> p_runsByLevelLow p
      | runsByLevelMid \<Rightarrow> p_runsByLevelMid p
      | runsByLevelHigh \<Rightarrow> p_runsByLevelHigh p
      | runsByLevelElite \<Rightarrow> p_runsByLevelElite p)"

definition setBucket :: "levelBucket \<Rightarrow> int \<Rightarrow> Player \<Rightarrow> Player" where
  "setBucket b v p =
     (case b of runsByLevelLow \<Rightarrow> p\<lparr>p_runsByLevelLow := Some v\<rparr>
      | runsByLevelMid \<Rightarrow> p\<lparr>p_runsByLevelMid := Some v\<rparr>
      | runsByLevelHigh \<Rightarrow> p\<lparr>p_runsByLevelHigh := Some v\<rparr>
      | runsByLevelElite \<Rightarrow> p\<lparr>p_runsByLevelElite := Some v\<rparr>)"

text \<open>The object handed to \<^verbatim>\<open>storage.updatePlayer\<close>, computed from the row
  \<open>player\<close> read at the start.\<close>

definition statsUpdates :: "Player \<Rightarrow> StatsRun \<Rightarrow> ExistingRun list \<Rightarrow> Player \<Rightarrow> Player" where
  "statsUpdates player run existingRuns =
     (let inTime = (sr_clearTimeMs run \<le> sr_parTimeMs run);
          keyLevel = sr_keyLevel run;
          bucket = levelBucketOf keyLevel;
          mostPlayed = mostPlayedOf (sr_dungeon run) (dungeonCounts existingRuns run);
          newHighestKey = max (or0 (p_highestKeyLevel player)) keyLevel
      in (\<lambda>row. setBucket bucket (or0 (bucketValue bucket player) + 1)
            (row\<lparr>p_totalRunsTracked := Some (or0 (p_totalRunsTracked player) + 1),
                 p_mostPlayedDungeon := Some mostPlayed,
                 p_runsInTime := Some (or0 (p_runsInTime player) + (if inTime then 1 else 0)),
                 p_runsOverTime := Some (or0 (p_runsOverTime player) + (if inTime then 0 else 1)),
                 p_highestKeyLevel := Some newHighestKey\<rparr>)))"

definition updatePlayerStats :: "rowid \<Rightarrow> StatsRun \<Rightarrow> ExistingRun list \<Rightarrow> DB \<Rightarrow> DB" where
  "updatePlayerStats playerId run existingRuns db =
     (case getPlayer playerId db of
        None \<Rightarrow> db
      | Some player \<Rightarrow> updatePlayer playerId (statsUpdates player run existingRuns) db)"

section \<open>Guild-run detection (the sync module, src/unnamed/part_001)\<close>

text \<open>\<^verbatim>\<open>generateRunKey\<close>: the last element of \<^verbatim>\<open>url.split('/')\<close>, or the
  composite of dungeon, level and epoch milliseconds.\<close>

definition lastSegment :: "string \<Rightarrow> string" where
  "lastSegment url = rev (takeWhile (\<lambda>c. c \<noteq> CHR ''/'') (rev url))"

definition generateRunKey :: "RaiderIORun \<Rightarrow> string" where
  "generateRunKey run =
     (if truthyStr (rr_url run) then lastSegment (the (rr_url run))
      else rr_dungeon run @ ''-'' @ showInt (rr_mythic_level run) @ ''-''
           @ showInt (rr_completed_at run))"

definition normalizeRealm :: "string \<Rightarrow> string" where
  "normalizeRealm realm =
     replacePair (CHR 0xC3) (CHR 0xBA) (CHR ''u'')
       (replacePair (CHR 0xC3) (CHR 0xB3) (CHR ''o'')
         (replacePair (CHR 0xC3) (CHR 0xAD) (CHR ''i'')
           (replacePair (CHR 0xC3) (CHR 0xA9) (CHR ''e'')
             (replacePair (CHR 0xC3) (CHR 0xA1) (CHR ''a'')
               (filter (\<lambda>c. c \<noteq> CHR 0x27 \<and> c \<noteq> CHR ''-'' \<and> c \<noteq> CHR '' '')
                       (toLowerCase realm))))))"

text \<open>The module variable \<^verbatim>\<open>guildPlayerCache\<close> is a parameter of the functions
  that read it.\<close>

type_synonym guildPlayerCache = "string \<rightharpoonup> Player"

definition findGuildPlayer :: "guildPlayerCache \<Rightarrow> string \<Rightarrow> string \<Rightarrow> Player option" where
  "findGuildPlayer cache n realm = cache (toLowerCase n @ ''-'' @ normalizeRealm realm)"

definition refreshGuildPlayerCache :: "DB \<Rightarrow> guildPlayerCache" where
  "refreshGuildPlayerCache db =
     foldl (\<lambda>cache player.
              if p_isActive player = Some True
              then cache(toLowerCase (p_name player) @ ''-'' @ normalizeRealm (p_realm player)
                         \<mapsto> player)
              else cache)
           Map.empty (players db)"

text \<open>The inner loop of \<^verbatim>\<open>processGuildRuns\<close>: the guild players matched by the
  roster, in roster order.\<close>

definition guildMembersOf :: "guildPlayerCache \<Rightarrow> RosterMember list \<Rightarrow> Player list" where
  "guildMembersOf cache roster =
     List.map_filter
       (\<lambda>member. findGuildPlayer cache (rm_name member)
                    (orStr (Some (rm_realm_name member)) (rm_realm_slug member)))
       roster"

definition getGuildMythicRunByKey :: "string \<Rightarrow> DB \<Rightarrow> GuildMythicRun option" where
  "getGuildMythicRunByKey runKey db = find (\<lambda>g. gm_runKey g = runKey) (guildMythicRuns db)"

definition guildRunRecord :: "rowid \<Rightarrow> RaiderIORun \<Rightarrow> Player list \<Rightarrow> GuildMythicRun" where
  "guildRunRecord i run guildMembers =
     \<lparr>gm_id = i,
      gm_runKey = generateRunKey run,
      gm_dungeon = rr_dungeon run,
      gm_mythicLevel = rr_mythic_level run,
      gm_completedAt = rr_completed_at run,
      gm_clearTimeMs = Some (rr_clear_time_ms run),
      gm_parTimeMs = Some (rr_par_time_ms run),
      gm_score = Some (Math_round (rr_score run)),
      gm_keystoneUpgrades = Some (rr_num_keystone_upgrades run),
      gm_guildPlayerIds = map p_id guildMembers,
      gm_guildPlayerNames = map p_name guildMembers,
      gm_totalGuildMembers = int (length guildMembers)\<rparr>"

definition guildRunEvent :: "rowid \<Rightarrow> RaiderIORun \<Rightarrow> Player list \<Rightarrow> ActivityEvent" where
  "guildRunEvent i run guildMembers =
     (let primaryPlayer = hd guildMembers
      in \<lparr>ae_id = i,
          ae_type = ''guild_mythic_run'',
          ae_playerId = p_id primaryPlayer,
          ae_playerName = p_name primaryPlayer,
          ae_playerClass = p_class primaryPlayer,
          ae_title = ''Completed '' @ rr_dungeon run @ '' +'' @ showInt (rr_mythic_level run),
          ae_description =
            (if length guildMembers > 1
             then Some (''Guild group: '' @ join '', '' (map p_name guildMembers))
             else None),
          ae_value = Some (rr_mythic_level run),
          ae_timestamp = rr_completed_at run\<rparr>)"

text \<open>One iteration of the loop of \<^verbatim>\<open>processGuildRuns\<close>, on the pair of the
  counter \<open>eventsCreated\<close> and the state; \<^verbatim>\<open>continue\<close> returns the pair as it is.
  \<open>hd guildMembers\<close> is only evaluated past the check that the list has two elements.\<close>

definition processGuildRun :: "guildPlayerCache \<Rightarrow> RaiderIORun \<Rightarrow> nat \<times> DB \<Rightarrow> nat \<times> DB" where
  "processGuildRun cache run acc =
     (case rr_roster run of
        None \<Rightarrow> acc
      | Some roster \<Rightarrow>
          if length roster < 2 then acc
          else (let guildMembers = guildMembersOf cache roster; db = snd acc
                in if length guildMembers < 2 then acc
                   else (case getGuildMythicRunByKey (generateRunKey run) db of
                           Some existingRun \<Rightarrow> acc
                         | None \<Rightarrow>
                             (Suc (fst acc),
                              db\<lparr>guildMythicRuns := guildMythicRuns db
                                     @ [guildRunRecord (nextId db) run guildMembers],
                                 activityEvents := activityEvents db
                                     @ [guildRunEvent (Suc (nextId db)) run guildMembers],
                                 nextId := Suc (Suc (nextId db))\<rparr>))))"

definition processGuildRuns :: "guildPlayerCache \<Rightarrow> RaiderIORun list \<Rightarrow> DB \<Rightarrow> nat \<times> DB" where
  "processGuildRuns cache runs db = foldl (\<lambda>acc run. processGuildRun cache run acc) (0, db) runs"

section \<open>Per-player sync (the sync module, src/unnamed/part_001)\<close>

text \<open>The fields of the upstream profile that \<^verbatim>\<open>syncPlayer\<close> reads: \<open>pf_score_all\<close>
  is \<^verbatim>\<open>mythic_plus_scores_by_season?.[0]?.scores?.all\<close> and
  \<open>pf_item_level_equipped\<close> is \<^verbatim>\<open>gear?.item_level_equipped\<close>.\<close>

record RaiderIOProfile =
  pf_score_all :: "rat option"
  pf_item_level_equipped :: "rat option"
  pf_class :: string
  pf_active_spec_name :: string
  pf_race :: string
  pf_thumbnail_url :: "string option"
  pf_best_runs :: "RaiderIORun list option"
  pf_recent_runs :: "RaiderIORun list option"

datatype SyncResult = sync_updated | sync_skipped | sync_failed

text \<open>\<^verbatim>\<open>x || 0\<close> on an optional upstream number.\<close>

fun orRat0 :: "rat option \<Rightarrow> rat" where
  "orRat0 None = 0"
| "orRat0 (Some x) = x"

definition hasPlayerDataChanged :: "Player \<Rightarrow> RaiderIOProfile \<Rightarrow> bool" where
  "hasPlayerDataChanged player profile =
     (let newScore = Math_round (orRat0 (pf_score_all profile));
          newItemLevel = Math_round (orRat0 (pf_item_level_equipped profile));
          newSpec = orStr (Some (pf_active_spec_name profile)) '''';
          newRace = orStr (Some (pf_race profile)) '''';
          newClass = orStr (Some (pf_class profile)) '''';
          newThumbnail = orStr (pf_thumbnail_url profile) ''''
      in p_mythicScore player \<noteq> Some newScore
         \<or> p_itemLevel player \<noteq> Some newItemLevel
         \<or> p_spec player \<noteq> Some newSpec
         \<or> p_race player \<noteq> Some newRace
         \<or> p_class player \<noteq> newClass
         \<or> p_avatarUrl player \<noteq> Some newThumbnail)"

text \<open>\<^verbatim>\<open>url.match(/\/(\d+)-/)\<close>: the digits of the leftmost place where a slash is
  followed by one or more digits and a hyphen; \<^verbatim>\<open>parseInt(digits, 10)\<close>.\<close>

definition isDigit :: "char \<Rightarrow> bool" where
  "isDigit c = (c \<in> set ''0123456789'')"

fun matchRunId :: "string \<Rightarrow> string option" where
  "matchRunId [] = None"
| "matchRunId (c # cs) =
     (if c = CHR ''/'' \<and> takeWhile isDigit cs \<noteq> []
         \<and> (case dropWhile isDigit cs of [] \<Rightarrow> False | d # rest \<Rightarrow> d = CHR ''-'')
      then Some (takeWhile isDigit cs)
      else matchRunId cs)"

definition digitValue :: "char \<Rightarrow> nat" where
  "digitValue c =
     (case map_of (zip ''0123456789'' [0, 1, 2, 3, 4, 5, 6, 7, 8, 9]) c of
        Some v \<Rightarrow> v | None \<Rightarrow> 0)"

definition parseInt :: "string \<Rightarrow> nat" where
  "parseInt digits = foldl (\<lambda>acc c. 10 * acc + digitValue c) 0 digits"

text \<open>The loop that collects \<^verbatim>\<open>runIds\<close> from the recent runs.\<close>

definition extractRunIds :: "RaiderIORun list \<Rightarrow> nat list" where
  "extractRunIds recentRuns =
     List.map_filter
       (\<lambda>run. if truthyStr (rr_url run)
               then map_option parseInt (matchRunId (the (rr_url run)))
               else None)
       recentRuns"

text \<open>The two loops that fill \<^verbatim>\<open>allRuns\<close>, on the pair of \<^verbatim>\<open>seenUrls\<close> and
  \<^verbatim>\<open>allRuns\<close>.\<close>

definition mergeStep ::
  "string option set \<times> RaiderIORun list \<Rightarrow> RaiderIORun \<Rightarrow> string option set \<times> RaiderIORun list" where
  "mergeStep acc run =
     (if rr_url run \<in> fst acc then acc else (insert (rr_url run) (fst acc), snd acc @ [run]))"

definition mergeRuns :: "RaiderIORun list \<Rightarrow> RaiderIORun list \<Rightarrow> RaiderIORun list" where
  "mergeRuns recentRuns bestRuns =
     snd (foldl mergeStep (foldl mergeStep ({}, []) recentRuns) bestRuns)"

definition asExistingRun :: "MythicRun \<Rightarrow> ExistingRun" where
  "asExistingRun r =
     \<lparr>er_dungeon = mr_dungeon r, er_keyLevel = mr_keyLevel r,
      er_timestamp = mr_timestamp r, er_url = mr_url r\<rparr>"

text \<open>The object handed to \<^verbatim>\<open>storage.upsertMythicRun\<close>.\<close>

definition runInsert :: "rowid \<Rightarrow> RaiderIORun \<Rightarrow> InsertMythicRun" where
  "runInsert pid run =
     \<lparr>im_playerId = pid,
      im_dungeon = rr_dungeon run,
      im_keyLevel = rr_mythic_level run,
      im_completionTime = Math_round (of_int (rr_clear_time_ms run) / 1000),
      im_timerPercent =
        (if rr_clear_time_ms run = 0 then None
         else Some (of_int (rr_par_time_ms run) / of_int (rr_clear_time_ms run) * 100)),
      im_score = Math_round (rr_score run),
      im_affixes = Some (rr_affixes run),
      im_timestamp = rr_completed_at run,
      im_url = rr_url run,
      im_clearTimeMs = Some (rr_clear_time_ms run),
      im_parTimeMs = Some (rr_par_time_ms run)\<rparr>"

definition runForStats :: "RaiderIORun \<Rightarrow> StatsRun" where
  "runForStats run =
     \<lparr>sr_dungeon = rr_dungeon run, sr_keyLevel = rr_mythic_level run,
      sr_clearTimeMs = rr_clear_time_ms run, sr_parTimeMs = rr_par_time_ms run\<rparr>"

text \<open>One iteration of the loop over \<^verbatim>\<open>allRuns.slice(0, 10)\<close>, on the triple of
  the deduplicator, \<^verbatim>\<open>existingRunsForStats\<close> and the state.\<close>

definition syncRunStep ::
  "rowid \<Rightarrow> RunDeduplicator \<times> ExistingRun list \<times> DB \<Rightarrow> RaiderIORun
     \<Rightarrow> RunDeduplicator \<times> ExistingRun list \<times> DB" where
  "syncRunStep pid acc run =
     (let deduplicator = fst acc;
          existingRunsForStats = fst (snd acc);
          db = snd (snd acc);
          isNew = isNewRun deduplicator run;
          db1 = snd (upsertMythicRun (runInsert pid run) db);
          deduplicator1 = markAsSeen deduplicator run
      in if isNew
         then (deduplicator1,
               existingRunsForStats
                 @ [\<lparr>er_dungeon = rr_dungeon run, er_keyLevel = rr_mythic_level run,
                     er_timestamp = rr_completed_at run,
                     er_url = orElseStr (rr_url run) None\<rparr>],
               updatePlayerStats pid (runForStats run) existingRunsForStats db1)
         else (deduplicator1, existingRunsForStats, db1))"

text \<open>The part of \<^verbatim>\<open>syncPlayer\<close> in front of the change detection: guild-run
  detection on the details of the recent runs. \<open>fetchDetails\<close> stands for
  \<^verbatim>\<open>fetchRunDetailsWithRoster\<close> (an HTTP request per run id).\<close>

definition detectGuildRuns ::
  "(nat list \<Rightarrow> RaiderIORun list) \<Rightarrow> guildPlayerCache \<Rightarrow> RaiderIOProfile \<Rightarrow> DB \<Rightarrow> DB" where
  "detectGuildRuns fetchDetails cache profile db =
     (case pf_recent_runs profile of
        None \<Rightarrow> db
      | Some recentRuns \<Rightarrow>
          if recentRuns = [] then db
          else (let runIds = extractRunIds recentRuns
                in if runIds = [] then db
                   else (let runsWithRoster = fetchDetails runIds
                         in if runsWithRoster = [] then db
                            else snd (processGuildRuns cache runsWithRoster db))))"

text \<open>The \<^verbatim>\<open>SET\<close> clause of the profile update.\<close>

definition profileUpdates :: "RaiderIOProfile \<Rightarrow> timestamp \<Rightarrow> Player \<Rightarrow> Player" where
  "profileUpdates profile now row =
     row\<lparr>p_mythicScore := Some (Math_round (orRat0 (pf_score_all profile))),
         p_itemLevel := Some (Math_round (orRat0 (pf_item_level_equipped profile))),
         p_class := pf_class profile,
         p_spec := Some (pf_active_spec_name profile),
         p_race := Some (pf_race profile),
         p_avatarUrl := orElseStr (pf_thumbnail_url profile) None,
         p_lastRioSync := Some now\<rparr>"

text \<open>\<^verbatim>\<open>syncPlayer\<close>. \<open>profile\<close> is the result of
  \<^verbatim>\<open>fetchPlayerFromRaiderIO\<close> (\<open>None\<close> when the character is not found or the
  request fails) and \<open>now\<close> the clock reading of \<^verbatim>\<open>new Date()\<close>.\<close>

definition syncPlayer ::
  "(nat list \<Rightarrow> RaiderIORun list) \<Rightarrow> timestamp \<Rightarrow> guildPlayerCache \<Rightarrow> Player
     \<Rightarrow> RaiderIOProfile option \<Rightarrow> DB \<Rightarrow> SyncResult \<times> DB" where
  "syncPlayer fetchDetails now cache player profileOpt db =
     (case profileOpt of
        None \<Rightarrow> (sync_failed, db)
      | Some profile \<Rightarrow>
          (let db1 = detectGuildRuns fetchDetails cache profile db
           in if \<not> hasPlayerDataChanged player profile
              then (sync_skipped,
                    updatePlayer (p_id player) (\<lambda>p. p\<lparr>p_lastRioSync := Some now\<rparr>) db1)
              else (let db2 = updatePlayer (p_id player) (profileUpdates profile now) db1;
                        bestRuns = (case pf_best_runs profile of Some rs \<Rightarrow> rs | None \<Rightarrow> []);
                        recentRuns = (case pf_recent_runs profile of Some rs \<Rightarrow> rs | None \<Rightarrow> []);
                        allRuns = mergeRuns recentRuns bestRuns
                    in if allRuns = [] then (sync_updated, db2)
                       else (let existingRuns = getMythicRuns (p_id player) db2;
                                 deduplicator = newRunDeduplicator (map asExistingRun existingRuns);
                                 existingRunsForStats = map asExistingRun existingRuns;
                                 db3 = snd (snd (foldl (syncRunStep (p_id player))
                                                   (deduplicator, existingRunsForStats, db2)
                                                   (take 10 allRuns)));
                                 db4 = snd (deleteOldMythicRuns (p_id player) 5 db3)
                             in (sync_updated, db4)))))"

section \<open>Upload payload (shared/schema.ts, addonUploadSchema)\<close>

record MasterRosterEntry =
  mre_rank :: "string option"
  mre_lvl :: "int option"
  mre_class :: "string option"

record OnlinePlayer =
  op_rank :: "string option"
  op_level :: "int option"
  op_class :: "string option"

text \<open>\<open>ss_iso\<close> is the instant \<^verbatim>\<open>new Date(snapshot.iso)\<close>, \<open>None\<close> when the string
  does not parse; \<open>ss_online\<close> lists the object's entries in key order.\<close>

record StatsSnapshot =
  ss_iso :: "timestamp option"
  ss_online :: "(string \<times> OnlinePlayer) list"
  ss_onlineCount :: int

text \<open>\<open>cd_lastSeen\<close> is the instant of a non-empty \<^verbatim>\<open>lastSeen\<close> string (taken to
  parse), \<open>None\<close> when the key is absent or empty.\<close>

record ChatDataEntry =
  cd_total :: "int option"
  cd_lastSeen :: "timestamp option"
  cd_lastSeenTS :: "int option"
  cd_lastMessage :: "string option"
  cd_rankName :: "string option"

datatype RemovedMember = RemovedName string | RemovedEntry string "string option"

text \<open>
  The keys that \<^verbatim>\<open>addonUploadSchema\<close> declares (those that only travel to the log or
  the response are left out: \<^verbatim>\<open>batch_id\<close>, \<^verbatim>\<open>reason\<close>, the roster summaries).
  An object with entries is the list of its entries in key order.
\<close>

record AddonUploadData =
  ud_master_roster :: "(string \<times> MasterRosterEntry) list option"
  ud_stats :: "StatsSnapshot list option"
  ud_data :: "(string \<times> ChatDataEntry) list option"
  ud_upload_session_id :: "string option"
  ud_is_final_batch :: "bool option"
  ud_batch_index :: "int option"
  ud_total_batches :: "int option"
  ud_session_phase :: "SessionPhase option"
  ud_sessionPhase :: "SessionPhase option"
  ud_roster_mode :: "RosterMode option"
  ud_removed_members :: "RemovedMember list option"
  ud_rosterMode :: "RosterMode option"
  ud_removedMembers :: "RemovedMember list option"

text \<open>
  The request body: the declared keys and the six further keys that the handler reads
  but the schema does not declare.
\<close>

record UploadBody = AddonUploadData +
  ub_add_update_only :: "bool option"
  ub_addUpdateOnly :: "bool option"
  ub_confirm_removals :: "bool option"
  ub_confirmRemovals :: "bool option"
  ub_base_roster_hash :: "string option"
  ub_baseRosterHash :: "string option"

text \<open>
  \<^verbatim>\<open>addonUploadSchema.parse(req.body)\<close>. The schema is a plain \<^verbatim>\<open>z.object\<close>
  (neither \<^verbatim>\<open>passthrough\<close> nor \<^verbatim>\<open>strict\<close>), which returns a new object holding
  the declared keys only. A body of this type is well-formed, so the parse does not throw.
\<close>

definition addonUploadSchema_parse :: "UploadBody \<Rightarrow> AddonUploadData" where
  "addonUploadSchema_parse body =
     \<lparr>ud_master_roster = ud_master_roster body,
      ud_stats = ud_stats body,
      ud_data = ud_data body,
      ud_upload_session_id = ud_upload_session_id body,
      ud_is_final_batch = ud_is_final_batch body,
      ud_batch_index = ud_batch_index body,
      ud_total_batches = ud_total_batches body,
      ud_session_phase = ud_session_phase body,
      ud_sessionPhase = ud_sessionPhase body,
      ud_roster_mode = ud_roster_mode body,
      ud_removed_members = ud_removed_members body,
      ud_rosterMode = ud_rosterMode body,
      ud_removedMembers = ud_removedMembers body\<rparr>"

text \<open>Reading, from the parsed object, a key that the schema does not declare
  (\<^verbatim>\<open>data.confirm_removals\<close> and the five others): the object has no such property
  and the read yields \<^verbatim>\<open>undefined\<close>.\<close>

definition undeclaredKey :: "AddonUploadData \<Rightarrow> 'a option" where
  "undeclaredKey data = None"

section \<open>Uploader status and upload session (server/storage.ts)\<close>

definition getUploaderStatusRecord :: "string \<Rightarrow> DB \<Rightarrow> UploaderStatus option" where
  "getUploaderStatusRecord uploaderId db =
     find (\<lambda>s. us_uploaderId s = uploaderId) (uploaderStatuses db)"

definition ensureUploaderStatus :: "UploaderStatus \<Rightarrow> string \<Rightarrow> DB \<Rightarrow> UploaderStatus \<times> DB" where
  "ensureUploaderStatus dflt uploaderId db =
     (case getUploaderStatusRecord uploaderId db of
        Some existing \<Rightarrow> (existing, db)
      | None \<Rightarrow>
          (let created = dflt\<lparr>us_id := nextId db, us_uploaderId := uploaderId\<rparr>
           in (created,
               db\<lparr>uploaderStatuses := uploaderStatuses db @ [created],
                  nextId := Suc (nextId db)\<rparr>)))"

text \<open>\<^verbatim>\<open>updateUploaderStatus\<close>: the \<^verbatim>\<open>SET\<close> clause is a function on rows that
  leaves a column alone where \<^verbatim>\<open>sanitizeUpdate\<close> drops the key. The result is the
  first row of the \<^verbatim>\<open>returning()\<close> list, which holds the row \<open>current\<close> at least.\<close>

definition updateUploaderStatus ::
  "UploaderStatus \<Rightarrow> string \<Rightarrow> (UploaderStatus \<Rightarrow> UploaderStatus) \<Rightarrow> timestamp \<Rightarrow> DB
     \<Rightarrow> UploaderStatus \<times> DB" where
  "updateUploaderStatus dflt uploaderId upd now db =
     (let current = fst (ensureUploaderStatus dflt uploaderId db);
          db1 = snd (ensureUploaderStatus dflt uploaderId db);
          rows = map (\<lambda>s. if us_id s = us_id current then (upd s)\<lparr>us_updatedAt := Some now\<rparr> else s)
                     (uploaderStatuses db1)
      in (case find (\<lambda>s. us_id s = us_id current) rows of
            Some updated \<Rightarrow> updated
          | None \<Rightarrow> (upd current)\<lparr>us_updatedAt := Some now\<rparr>,
          db1\<lparr>uploaderStatuses := rows\<rparr>))"

definition outOfOrderMessage :: "int \<Rightarrow> int option \<Rightarrow> string" where
  "outOfOrderMessage expected received =
     ''Out-of-order batch (expected '' @ showInt expected @ '', received ''
       @ (case received of Some r \<Rightarrow> showInt r | None \<Rightarrow> ''none'') @ '')''"

definition markUploaderOutOfOrder ::
  "UploaderStatus \<Rightarrow> string \<Rightarrow> int \<Rightarrow> int option \<Rightarrow> string option \<Rightarrow> int option
     \<Rightarrow> SessionPhase option \<Rightarrow> timestamp \<Rightarrow> DB \<Rightarrow> UploaderStatus \<times> DB" where
  "markUploaderOutOfOrder dflt uploaderId expectedBatchIndex receivedBatchIndex sessionId
       totalBatches lastPhase now db =
     updateUploaderStatus dflt uploaderId
       (\<lambda>s. s\<lparr>us_status := Some ''out_of_order'',
               us_lastError := Some (outOfOrderMessage expectedBatchIndex receivedBatchIndex),
               us_expectedBatchIndex := Some expectedBatchIndex,
               us_lastBatchIndex :=
                 (case receivedBatchIndex of Some r \<Rightarrow> Some r | None \<Rightarrow> us_lastBatchIndex s),
               us_lastSessionId :=
                 (case sessionId of Some i \<Rightarrow> Some i | None \<Rightarrow> us_lastSessionId s),
               us_totalBatches :=
                 (case totalBatches of Some t \<Rightarrow> Some t | None \<Rightarrow> us_totalBatches s),
               us_lastPhase := (case lastPhase of Some ph \<Rightarrow> Some ph | None \<Rightarrow> us_lastPhase s)\<rparr>)
       now db"

definition startUploadSession :: "string \<Rightarrow> timestamp \<Rightarrow> DB \<Rightarrow> DB" where
  "startUploadSession sessionId now db =
     (case guildSettings db of
        None \<Rightarrow> db
      | Some settings \<Rightarrow>
          db\<lparr>guildSettings := Some (settings\<lparr>gs_currentUploadSession := Some sessionId,
                                            gs_uploadSessionStartedAt := Some now,
                                            gs_uploadSessionProcessedCount := Some 0\<rparr>)\<rparr>)"

definition clearUploadSession :: "timestamp \<Rightarrow> DB \<Rightarrow> DB" where
  "clearUploadSession now db =
     (case guildSettings db of
        None \<Rightarrow> db
      | Some settings \<Rightarrow>
          db\<lparr>guildSettings := Some (settings\<lparr>gs_currentUploadSession := None,
                                            gs_uploadSessionStartedAt := None,
                                            gs_uploadSessionProcessedCount := Some 0,
                                            gs_lastUploadCompletedAt := Some now\<rparr>)\<rparr>)"

definition incrementUploadProcessedCount :: "nat \<Rightarrow> DB \<Rightarrow> DB" where
  "incrementUploadProcessedCount count db =
     (case guildSettings db of
        None \<Rightarrow> db
      | Some settings \<Rightarrow>
          db\<lparr>guildSettings :=
               Some (settings\<lparr>gs_uploadSessionProcessedCount :=
                                Some (or0 (gs_uploadSessionProcessedCount settings) + int count)\<rparr>)\<rparr>)"

text \<open>The \<^verbatim>\<open>sessionId\<close> of \<^verbatim>\<open>getCurrentUploadSession\<close>.\<close>

definition currentUploadSessionId :: "DB \<Rightarrow> string option" where
  "currentUploadSessionId db =
     (case guildSettings db of None \<Rightarrow> None | Some settings \<Rightarrow> gs_currentUploadSession settings)"

section \<open>Upload handler (server/routes.ts, POST /api/upload)\<close>

text \<open>\<^verbatim>\<open>parsePlayerName\<close>: the text before the first hyphen and the text after it,
  or the whole text with the default realm.\<close>

definition parsePlayerName :: "string \<Rightarrow> string \<Rightarrow> string \<times> string" where
  "parsePlayerName fullName defaultRealm =
     (if CHR ''-'' \<in> set fullName
      then (takeWhile (\<lambda>c. c \<noteq> CHR ''-'') fullName,
            tl (dropWhile (\<lambda>c. c \<noteq> CHR ''-'') fullName))
      else (fullName, defaultRealm))"

definition WOW_CLASS_MAP :: "(string \<times> string) list" where
  "WOW_CLASS_MAP =
     [(''DEATHKNIGHT'', ''Death Knight''), (''DEMONHUNTER'', ''Demon Hunter''),
      (''DRUID'', ''Druid''), (''EVOKER'', ''Evoker''), (''HUNTER'', ''Hunter''),
      (''MAGE'', ''Mage''), (''MONK'', ''Monk''), (''PALADIN'', ''Paladin''),
      (''PRIEST'', ''Priest''), (''ROGUE'', ''Rogue''), (''SHAMAN'', ''Shaman''),
      (''WARLOCK'', ''Warlock''), (''WARRIOR'', ''Warrior'')]"

definition normalizeClass :: "string option \<Rightarrow> string" where
  "normalizeClass addonClass =
     (if \<not> truthyStr addonClass then ''Warrior''
      else (case map_of WOW_CLASS_MAP (toUpperCase (the addonClass)) of
              Some c \<Rightarrow> c
            | None \<Rightarrow> the addonClass))"

datatype UploadResponse =
    Conflict409 int "int option" UploaderStatus
  | BadRequest400
  | Ok200 nat nat nat nat

text \<open>The argument of the \<^verbatim>\<open>upsertPlayer\<close> calls of the handler.\<close>

definition rosterPlayerData ::
  "string \<Rightarrow> string \<Rightarrow> string option \<Rightarrow> int option \<Rightarrow> string option \<Rightarrow> PlayerData" where
  "rosterPlayerData fullName defaultRealm cls lvl rank =
     \<lparr>pd_name = fst (parsePlayerName fullName defaultRealm),
      pd_realm = snd (parsePlayerName fullName defaultRealm),
      pd_class = normalizeClass cls,
      pd_spec = None,
      pd_race = None,
      pd_level = Some (orNum lvl 80),
      pd_itemLevel = None,
      pd_mythicScore = None,
      pd_guildRank = Some (orStr rank ''Member''),
      pd_messagesCount = None,
      pd_isActive = Some True\<rparr>"

text \<open>\<^verbatim>\<open>upsertRosterPlayers\<close>: the count and the new state.\<close>

definition upsertRosterPlayers :: "AddonUploadData \<Rightarrow> string \<Rightarrow> DB \<Rightarrow> nat \<times> DB" where
  "upsertRosterPlayers data defaultRealm db =
     (case ud_master_roster data of
        None \<Rightarrow> (0, db)
      | Some roster \<Rightarrow>
          foldl (\<lambda>acc fe.
                   (Suc (fst acc),
                    upsertPlayer (rosterPlayerData (fst fe) defaultRealm (mre_class (snd fe))
                                    (mre_lvl (snd fe)) (mre_rank (snd fe)))
                                 (snd acc)))
                (0, db) roster)"

definition parseRemovedMember :: "string \<Rightarrow> RemovedMember \<Rightarrow> string \<times> string" where
  "parseRemovedMember defaultRealm member =
     parsePlayerName (case member of RemovedName n \<Rightarrow> n | RemovedEntry n reason \<Rightarrow> n)
                     defaultRealm"

text \<open>The branch \<^verbatim>\<open>if (removalGuardPassed) ... else if (removalSkipReason) ...\<close>: the
  removed count and the new state (the other arm only logs).\<close>

definition processRemovals :: "bool \<Rightarrow> RemovedMember list \<Rightarrow> string \<Rightarrow> DB \<Rightarrow> nat \<times> DB" where
  "processRemovals removalGuardPassed removedMembers defaultRealm db =
     (if removalGuardPassed
      then deactivatePlayersByName (map (parseRemovedMember defaultRealm) removedMembers) db
      else (0, db))"

text \<open>The roster part of the handler (\<^verbatim>\<open>// Process based on roster_mode\<close>): the pair
  of \<^verbatim>\<open>playersProcessed\<close> and \<^verbatim>\<open>removedCount\<close>, and the new state.\<close>

definition processRoster ::
  "RosterMode option \<Rightarrow> SessionPhase option \<Rightarrow> string option \<Rightarrow> bool \<Rightarrow> bool
     \<Rightarrow> RemovedMember list \<Rightarrow> AddonUploadData \<Rightarrow> string \<Rightarrow> timestamp \<Rightarrow> DB
     \<Rightarrow> (nat \<times> nat) \<times> DB" where
  "processRoster rosterMode sessionPhase incomingSessionId isFinalBatch removalGuardPassed
       removedMembers data defaultRealm now db =
     (if rosterMode = Some mode_no_change then ((0, 0), clearUploadSession now db)
      else if rosterMode = Some mode_delta \<or> rosterMode = Some mode_full then
        (case sessionPhase of
           Some phase_start \<Rightarrow>
             (let db1 = (if truthyStr incomingSessionId
                         then (if currentUploadSessionId db \<noteq> incomingSessionId
                               then startUploadSession (the incomingSessionId) now db
                               else db)
                         else db);
                  up = upsertRosterPlayers data defaultRealm db1
              in ((fst up, 0), snd up))
         | Some phase_chunk \<Rightarrow>
             (let up = upsertRosterPlayers data defaultRealm db
              in ((fst up, 0), snd up))
         | Some phase_final \<Rightarrow>
             (let up = upsertRosterPlayers data defaultRealm db;
                  rm = processRemovals removalGuardPassed removedMembers defaultRealm (snd up)
              in ((fst up, fst rm), clearUploadSession now (snd rm)))
         | None \<Rightarrow>
             (let up = upsertRosterPlayers data defaultRealm db;
                  rm = processRemovals removalGuardPassed removedMembers defaultRealm (snd up)
              in ((fst up, fst rm),
                  (if isFinalBatch then clearUploadSession now (snd rm) else snd rm))))
      else
        (let db1 = (if truthyStr incomingSessionId \<and> incomingSessionId \<noteq> currentUploadSessionId db
                    then startUploadSession (the incomingSessionId) now
                           (snd (markAllPlayersInactive db))
                    else db);
             up = upsertRosterPlayers data defaultRealm db1;
             db2 = (if fst up > 0 then incrementUploadProcessedCount (fst up) (snd up) else snd up);
             db3 = (if isFinalBatch \<and> truthyStr incomingSessionId
                    then clearUploadSession now db2 else db2)
         in ((fst up, 0), db3)))"

text \<open>One online player of a snapshot.\<close>

definition processOnlinePlayer :: "string \<Rightarrow> timestamp \<Rightarrow> DB \<Rightarrow> string \<times> OnlinePlayer \<Rightarrow> DB" where
  "processOnlinePlayer defaultRealm t db fe =
     (let nr = parsePlayerName (fst fe) defaultRealm;
          db1 = updatePlayerLastSeen (fst nr) (snd nr) t db
      in if truthyStr (op_class (snd fe)) \<or> truthyStr (op_rank (snd fe))
         then upsertPlayer (rosterPlayerData (fst fe) defaultRealm (op_class (snd fe))
                              (op_level (snd fe)) (op_rank (snd fe))) db1
         else db1)"

text \<open>The loop over \<^verbatim>\<open>statsArray\<close>: \<^verbatim>\<open>snapshotsProcessed\<close> and the new state.
  \<^verbatim>\<open>createActivitySnapshot\<close> writes a table that is not part of the state.\<close>

definition processSnapshot :: "string \<Rightarrow> nat \<times> DB \<Rightarrow> StatsSnapshot \<Rightarrow> nat \<times> DB" where
  "processSnapshot defaultRealm acc snapshot =
     (case ss_iso snapshot of
        None \<Rightarrow> acc
      | Some t \<Rightarrow>
          (Suc (fst acc), foldl (processOnlinePlayer defaultRealm t) (snd acc) (ss_online snapshot)))"

definition processStats :: "AddonUploadData \<Rightarrow> string \<Rightarrow> DB \<Rightarrow> nat \<times> DB" where
  "processStats data defaultRealm db =
     (case ud_stats data of
        None \<Rightarrow> (0, db)
      | Some statsArray \<Rightarrow> foldl (processSnapshot defaultRealm) (0, db) statsArray)"

text \<open>The \<^verbatim>\<open>updates\<close> object of one chat entry: whether it has a key, and the
  \<^verbatim>\<open>SET\<close> clause. The byte string is the dash that marks an empty rank name.\<close>

definition chatHasUpdates :: "ChatDataEntry \<Rightarrow> bool" where
  "chatHasUpdates chatEntry =
     (cd_total chatEntry \<noteq> None
      \<or> (truthyStr (cd_rankName chatEntry)
          \<and> cd_rankName chatEntry \<noteq> Some [CHR 0xE2, CHR 0x80, CHR 0x94])
      \<or> truthyStr (cd_lastMessage chatEntry)
      \<or> orNum (cd_lastSeenTS chatEntry) 0 \<noteq> 0
      \<or> cd_lastSeen chatEntry \<noteq> None)"

definition chatUpdates :: "ChatDataEntry \<Rightarrow> Player \<Rightarrow> Player" where
  "chatUpdates chatEntry row =
     row\<lparr>p_messagesCount :=
           (case cd_total chatEntry of Some n \<Rightarrow> Some n | None \<Rightarrow> p_messagesCount row),
         p_guildRank :=
           (if truthyStr (cd_rankName chatEntry)
               \<and> cd_rankName chatEntry \<noteq> Some [CHR 0xE2, CHR 0x80, CHR 0x94]
            then cd_rankName chatEntry else p_guildRank row),
         p_lastMessage :=
           (if truthyStr (cd_lastMessage chatEntry) then cd_lastMessage chatEntry
            else p_lastMessage row),
         p_lastMessageTime :=
           (if orNum (cd_lastSeenTS chatEntry) 0 \<noteq> 0
            then Some (orNum (cd_lastSeenTS chatEntry) 0 * 1000)
            else (case cd_lastSeen chatEntry of
                    Some t \<Rightarrow> Some t
                  | None \<Rightarrow> p_lastMessageTime row))\<rparr>"

definition processChatEntry :: "string \<Rightarrow> nat \<times> DB \<Rightarrow> string \<times> ChatDataEntry \<Rightarrow> nat \<times> DB" where
  "processChatEntry defaultRealm acc fe =
     (let nr = parsePlayerName (fst fe) defaultRealm
      in (case getPlayerByName (fst nr) (snd nr) (snd acc) of
            None \<Rightarrow> acc
          | Some existing \<Rightarrow>
              if chatHasUpdates (snd fe)
              then (Suc (fst acc), updatePlayer (p_id existing) (chatUpdates (snd fe)) (snd acc))
              else acc))"

definition processChatData :: "AddonUploadData \<Rightarrow> string \<Rightarrow> DB \<Rightarrow> nat \<times> DB" where
  "processChatData data defaultRealm db =
     (case ud_data data of
        None \<Rightarrow> (0, db)
      | Some entries \<Rightarrow> foldl (processChatEntry defaultRealm) (0, db) entries)"

text \<open>The normalised fields that the handler computes from the parsed payload.\<close>

definition rosterModeOf :: "AddonUploadData \<Rightarrow> RosterMode option" where
  "rosterModeOf data = nullish (ud_roster_mode data) (ud_rosterMode data)"

definition sessionPhaseOf :: "AddonUploadData \<Rightarrow> SessionPhase option" where
  "sessionPhaseOf data = nullish (ud_session_phase data) (ud_sessionPhase data)"

definition removedMembersOf :: "AddonUploadData \<Rightarrow> RemovedMember list" where
  "removedMembersOf data =
     (case nullish (ud_removed_members data) (ud_removedMembers data) of
        Some ms \<Rightarrow> ms | None \<Rightarrow> [])"

definition addUpdateOnlyOf :: "AddonUploadData \<Rightarrow> bool" where
  "addUpdateOnlyOf data =
     (case nullish (undeclaredKey data) (undeclaredKey data) of Some b \<Rightarrow> b | None \<Rightarrow> False)"

definition confirmRemovalsOf :: "AddonUploadData \<Rightarrow> bool" where
  "confirmRemovalsOf data =
     (case nullish (undeclaredKey data) (undeclaredKey data) of Some b \<Rightarrow> b | None \<Rightarrow> False)"

definition baseRosterHashOf :: "AddonUploadData \<Rightarrow> string option" where
  "baseRosterHashOf data = orElseStr (undeclaredKey data) (undeclaredKey data)"

definition removalGuardPassedOf :: "AddonUploadData \<Rightarrow> bool" where
  "removalGuardPassedOf data =
     (removedMembersOf data \<noteq> [] \<and> \<not> addUpdateOnlyOf data
      \<and> (confirmRemovalsOf data \<or> truthyStr (baseRosterHashOf data)))"

definition isBatchedUploadOf :: "AddonUploadData \<Rightarrow> bool" where
  "isBatchedUploadOf data =
     (rosterModeOf data \<noteq> None \<and> rosterModeOf data \<noteq> Some mode_no_change
      \<and> ud_batch_index data \<noteq> None \<and> sessionPhaseOf data \<noteq> None)"

text \<open>The status row read at the start, after the reset that a new session id causes,
  and the state that goes with it.\<close>

definition openSession ::
  "UploaderStatus \<Rightarrow> timestamp \<Rightarrow> string \<Rightarrow> AddonUploadData \<Rightarrow> DB \<Rightarrow> UploaderStatus \<times> DB" where
  "openSession dflt now uploaderId data db =
     (let ens = ensureUploaderStatus dflt uploaderId db;
          incomingSessionId = ud_upload_session_id data
      in if truthyStr incomingSessionId \<and> incomingSessionId \<noteq> us_lastSessionId (fst ens)
         then updateUploaderStatus dflt uploaderId
                (\<lambda>s. s\<lparr>us_lastSessionId := incomingSessionId,
                        us_lastBatchIndex := Some (- 1),
                        us_expectedBatchIndex := Some 0,
                        us_status := Some ''processing'',
                        us_totalBatches := ud_total_batches data,
                        us_lastError := None,
                        us_lastPhase := sessionPhaseOf data\<rparr>)
                now (snd ens)
         else ens)"

text \<open>\<^verbatim>\<open>expectedIndex\<close> of the ordering check.\<close>

definition expectedIndexOf :: "AddonUploadData \<Rightarrow> UploaderStatus \<Rightarrow> int" where
  "expectedIndexOf data uploaderStatus =
     (if sessionPhaseOf data = Some phase_start then 0
      else (case us_lastBatchIndex uploaderStatus of Some i \<Rightarrow> i | None \<Rightarrow> - 1) + 1)"

text \<open>\<^verbatim>\<open>// Update uploader tracking after successful processing\<close>.\<close>

definition trackUploader ::
  "UploaderStatus \<Rightarrow> timestamp \<Rightarrow> string \<Rightarrow> AddonUploadData \<Rightarrow> string option \<Rightarrow> DB \<Rightarrow> DB" where
  "trackUploader dflt now uploaderId data currentSessionId db =
     (let completed = (sessionPhaseOf data = Some phase_final \<or> ud_is_final_batch data = Some True)
      in if isBatchedUploadOf data then
           snd (updateUploaderStatus dflt uploaderId
                  (\<lambda>s. s\<lparr>us_lastBatchIndex := ud_batch_index data,
                          us_expectedBatchIndex :=
                            Some (if completed then 0 else the (ud_batch_index data) + 1),
                          us_lastSessionId := currentSessionId,
                          us_lastPhase := sessionPhaseOf data,
                          us_totalBatches := ud_total_batches data,
                          us_status := Some (if completed then ''idle'' else ''processing''),
                          us_lastError := None\<rparr>)
                  now db)
         else if truthyStr (ud_upload_session_id data) then
           snd (updateUploaderStatus dflt uploaderId
                  (\<lambda>s. s\<lparr>us_lastSessionId := currentSessionId,
                          us_lastPhase := sessionPhaseOf data,
                          us_totalBatches := ud_total_batches data,
                          us_status := Some (if completed then ''idle'' else ''processing''),
                          us_lastError := None\<rparr>)
                  now db)
         else db)"

text \<open>
  The handler from \<^verbatim>\<open>addonUploadSchema.parse\<close> on, for a request that has passed
  the API-key check as uploader \<open>uploaderId\<close>; \<open>now\<close> is the clock reading. It
  returns the response and the new state.
\<close>

definition uploadHandler ::
  "UploaderStatus \<Rightarrow> timestamp \<Rightarrow> string \<Rightarrow> UploadBody \<Rightarrow> DB \<Rightarrow> UploadResponse \<times> DB" where
  "uploadHandler dflt now uploaderId body db =
     (let data = addonUploadSchema_parse body;
          defaultRealm =
            (case guildSettings db of
               Some settings \<Rightarrow> orStr (Some (gs_realm settings)) ''Unknown''
             | None \<Rightarrow> ''Unknown'');
          rosterMode = rosterModeOf data;
          sessionPhase = sessionPhaseOf data;
          removedMembers = removedMembersOf data;
          batchIndex = ud_batch_index data;
          totalBatches = ud_total_batches data;
          isBatchedUpload = isBatchedUploadOf data;
          incomingSessionId = ud_upload_session_id data;
          isFinalBatch = (ud_is_final_batch data = Some True);
          currentSessionId =
            nullish incomingSessionId
              (us_lastSessionId (fst (ensureUploaderStatus dflt uploaderId db)));
          opened = openSession dflt now uploaderId data db;
          uploaderStatus = fst opened;
          db1 = snd opened;
          expectedIndex = expectedIndexOf data uploaderStatus
      in if isBatchedUpload \<and> batchIndex \<noteq> Some expectedIndex then
           (let marked = markUploaderOutOfOrder dflt uploaderId expectedIndex batchIndex
                           currentSessionId totalBatches sessionPhase now db1
            in (Conflict409 expectedIndex batchIndex (fst marked), snd marked))
         else if rosterMode \<noteq> None \<and> rosterMode \<noteq> Some mode_no_change
                 \<and> batchIndex \<noteq> None \<and> sessionPhase = None then
           (BadRequest400, db1)
         else
           (let roster = processRoster rosterMode sessionPhase incomingSessionId isFinalBatch
                           (removalGuardPassedOf data) removedMembers data defaultRealm now db1;
                playersProcessed = fst (fst roster);
                removedCount = snd (fst roster);
                db2 = (if rosterMode \<noteq> None \<and> playersProcessed > 0
                       then incrementUploadProcessedCount playersProcessed (snd roster)
                       else snd roster);
                stats = processStats data defaultRealm db2;
                chat = processChatData data defaultRealm (snd stats);
                db3 = trackUploader dflt now uploaderId data currentSessionId (snd chat)
            in (Ok200 playersProcessed removedCount (fst stats) (fst chat), db3)))"

section \<open>Projections of the response\<close>

text \<open>The indices of a conflict response.\<close>

definition rejectedWith :: "UploadResponse \<Rightarrow> (int \<times> int option) option" where
  "rejectedWith response =
     (case response of Conflict409 expected received status \<Rightarrow> Some (expected, received)
      | BadRequest400 \<Rightarrow> None
      | Ok200 n r s c \<Rightarrow> None)"

text \<open>The removed count that a response reports.\<close>

definition removedCountOf :: "UploadResponse \<Rightarrow> nat" where
  "removedCountOf response =
     (case response of Conflict409 expected received status \<Rightarrow> 0
      | BadRequest400 \<Rightarrow> 0
      | Ok200 n r s c \<Rightarrow> r)"

section \<open>Frame predicate for the players table\<close>

text \<open>No row of the first table is lost, moved, renamed or deactivated in the second:
  every position of the first still holds a row with the same id, name and realm, and a
  row that was active is active.\<close>

definition keepsActive :: "Player list \<Rightarrow> Player list \<Rightarrow> bool" where
  "keepsActive ps ps' \<longleftrightarrow>
     length ps \<le> length ps'
     \<and> (\<forall>i < length ps.
           p_id (ps' ! i) = p_id (ps ! i) \<and> p_name (ps' ! i) = p_name (ps ! i)
           \<and> p_realm (ps' ! i) = p_realm (ps ! i)
           \<and> (p_isActive (ps ! i) = Some True \<longrightarrow> p_isActive (ps' ! i) = Some True))"

section \<open>Example inputs\<close>

definition examplePlayer :: "rowid \<Rightarrow> string \<Rightarrow> string \<Rightarrow> bool \<Rightarrow> Player" where
  "examplePlayer i n r active =
     \<lparr>p_id = i, p_name = n, p_realm = r, p_class = ''Mage'', p_spec = Some ''Frost'',
      p_race = Some ''Gnome'', p_level = Some 80, p_itemLevel = Some 600,
      p_mythicScore = Some 2000, p_guildRank = Some ''Member'', p_avatarUrl = Some ''a.png'',
      p_isActive = Some active, p_lastSeen = None, p_messagesCount = Some 0,
      p_lastMessage = None, p_lastMessageTime = None, p_lastRioSync = None,
      p_totalRunsTracked = Some 0, p_mostPlayedDungeon = None, p_runsInTime = Some 0,
      p_runsOverTime = Some 0, p_runsByLevelLow = Some 0, p_runsByLevelMid = Some 0,
      p_runsByLevelHigh = Some 0, p_runsByLevelElite = Some 0, p_highestKeyLevel = Some 0\<rparr>"

definition exampleDB :: "Player list \<Rightarrow> DB" where
  "exampleDB ps =
     \<lparr>players = ps, mythicRuns = [], guildMythicRuns = [], activityEvents = [],
      uploaderStatuses = [],
      guildSettings = Some \<lparr>gs_realm = ''Realm'', gs_currentUploadSession = None,
                             gs_uploadSessionStartedAt = None,
                             gs_uploadSessionProcessedCount = Some 0,
                             gs_lastUploadCompletedAt = None\<rparr>,
      nextId = 100\<rparr>"

text \<open>The run of the aggregation example: cleared in 500000 ms against a par of 600000 ms
  at key level 8.\<close>

definition exampleStatsRun :: StatsRun where
  "exampleStatsRun =
     \<lparr>sr_dungeon = ''Ara-Kara'', sr_keyLevel = 8, sr_clearTimeMs = 500000,
      sr_parTimeMs = 600000\<rparr>"

text \<open>A player with runs on record: 7 tracked, 4 in time, 3 over time, 5 in the low and
  2 in the mid bracket.\<close>

definition seasonedPlayer :: Player where
  "seasonedPlayer =
     (examplePlayer 2 ''Bar'' ''Realm'' True)
       \<lparr>p_totalRunsTracked := Some 7, p_runsInTime := Some 4, p_runsOverTime := Some 3,
        p_runsByLevelLow := Some 5, p_runsByLevelMid := Some 2, p_highestKeyLevel := Some 6\<rparr>"

text \<open>An upstream run with a URL, and a stored run of the same dungeon, level and UTC day
  that has no URL.\<close>

definition exampleRun :: "string option \<Rightarrow> rat \<Rightarrow> RaiderIORun" where
  "exampleRun url score =
     \<lparr>rr_dungeon = ''Ara-Kara'', rr_short_name = ''ARAK'', rr_mythic_level = 8,
      rr_completed_at = 1700000000000, rr_clear_time_ms = 500000, rr_par_time_ms = 600000,
      rr_num_keystone_upgrades = 1, rr_score = score, rr_url = url, rr_affixes = [],
      rr_roster = None\<rparr>"

definition exampleStoredRun :: ExistingRun where
  "exampleStoredRun =
     \<lparr>er_dungeon = ''Ara-Kara'', er_keyLevel = 8, er_timestamp = 1700000005000,
      er_url = None\<rparr>"






text \<open>A payload with no key set, the defaults of a new uploader-status row used in the
  examples, and the payloads of the upload examples.\<close>

definition emptyBody :: UploadBody where
  "emptyBody =
     \<lparr>ud_master_roster = None, ud_stats = None, ud_data = None, ud_upload_session_id = None,
      ud_is_final_batch = None, ud_batch_index = None, ud_total_batches = None,
      ud_session_phase = None, ud_sessionPhase = None, ud_roster_mode = None,
      ud_removed_members = None, ud_rosterMode = None, ud_removedMembers = None,
      ub_add_update_only = None, ub_addUpdateOnly = None, ub_confirm_removals = None,
      ub_confirmRemovals = None, ub_base_roster_hash = None, ub_baseRosterHash = None\<rparr>"

definition exampleStatusDefaults :: UploaderStatus where
  "exampleStatusDefaults =
     \<lparr>us_id = 0, us_uploaderId = '''', us_lastSessionId = None, us_lastBatchIndex = None,
      us_expectedBatchIndex = None, us_status = Some ''idle'', us_totalBatches = None,
      us_lastError = None, us_lastPhase = None, us_updatedAt = None\<rparr>"

text \<open>A final-phase upload that confirms the removal of player A.\<close>

definition removalBody :: UploadBody where
  "removalBody =
     emptyBody\<lparr>ud_roster_mode := Some mode_full, ud_session_phase := Some phase_final,
               ud_removed_members := Some [RemovedName ''A-Realm''],
               ub_confirm_removals := Some True\<rparr>"

definition removalDB :: DB where
  "removalDB = exampleDB [examplePlayer 1 ''A'' ''Realm'' True, examplePlayer 2 ''B'' ''Realm'' True]"

text \<open>A batch of session \<open>s1\<close> in full mode with the given phase and batch index.\<close>

definition batchBody :: "SessionPhase \<Rightarrow> int \<Rightarrow> UploadBody" where
  "batchBody phase i =
     emptyBody\<lparr>ud_roster_mode := Some mode_full, ud_session_phase := Some phase,
               ud_upload_session_id := Some ''s1'', ud_batch_index := Some i,
               ud_total_batches := Some 5,
               ud_master_roster := Some [(''Foo-Realm'',
                  \<lparr>mre_rank = Some ''Member'', mre_lvl = Some 80, mre_class = Some ''MAGE''\<rparr>)]\<rparr>"

text \<open>The state after uploader \<open>u1\<close> has had its start batch (index 0) accepted, and the
  state after its chunk with index 3 has then been rejected.\<close>

definition afterStart :: DB where
  "afterStart = snd (uploadHandler exampleStatusDefaults 1000 ''u1'' (batchBody phase_start 0)
                       (exampleDB []))"

definition afterRejected :: DB where
  "afterRejected = snd (uploadHandler exampleStatusDefaults 2000 ''u1'' (batchBody phase_chunk 3)
                          afterStart)"

text \<open>The chunk with index 4 of session \<open>s1\<close>, whose roster holds a player not yet
  stored.\<close>

definition skippedAheadBody :: UploadBody where
  "skippedAheadBody =
     (batchBody phase_chunk 4)
       \<lparr>ud_master_roster := Some [(''Bar-Realm'',
          \<lparr>mre_rank = Some ''Member'', mre_lvl = Some 80, mre_class = Some ''MAGE''\<rparr>)]\<rparr>"

text \<open>A final-phase upload that lists player A as removed and confirms nothing.\<close>

definition unconfirmedBody :: UploadBody where
  "unconfirmedBody =
     emptyBody\<lparr>ud_roster_mode := Some mode_full, ud_session_phase := Some phase_final,
               ud_removed_members := Some [RemovedName ''A-Realm'']\<rparr>"

text \<open>A profile for a player like \<open>examplePlayer\<close> with the given overall score, whose
  recent and best runs are the one example run, and a detail fetch that finds nothing.\<close>

definition exampleProfile :: "rat \<Rightarrow> RaiderIOProfile" where
  "exampleProfile score =
     \<lparr>pf_score_all = Some score, pf_item_level_equipped = Some 600, pf_class = ''Mage'',
      pf_active_spec_name = ''Frost'', pf_race = ''Gnome'', pf_thumbnail_url = Some ''a.png'',
      pf_best_runs = Some [exampleRun (Some ''https://raider.io/mythic-plus-runs/s/123-8-ara'') 300],
      pf_recent_runs =
        Some [exampleRun (Some ''https://raider.io/mythic-plus-runs/s/123-8-ara'') 300]\<rparr>"

definition noDetails :: "nat list \<Rightarrow> RaiderIORun list" where
  "noDetails runIds = []"

definition syncDB :: DB where
  "syncDB = exampleDB [examplePlayer 1 ''Foo'' ''Realm'' True]"

section \<open>Properties of the stats aggregator\<close>

lemma find_map_upd:
  assumes "\<And>x. P (f x) = P x"
  shows "find P (map (\<lambda>x. if P x then f x else x) xs) = map_option f (find P xs)"
  using assms by (induction xs) auto

lemma setBucket_id [simp]: "p_id (setBucket b v p) = p_id p"
  by (cases b) (simp_all add: setBucket_def)

lemma statsUpdates_id [simp]: "p_id (statsUpdates player run ex row) = p_id row"
  by (simp add: statsUpdates_def Let_def)

lemma getPlayer_updatePlayerStats:
  assumes "getPlayer pid db = Some player"
  shows "getPlayer pid (updatePlayerStats pid run ex db) = Some (statsUpdates player run ex player)"
proof -
  have "find (\<lambda>p. p_id p = pid)
          (map (\<lambda>p. if p_id p = pid then statsUpdates player run ex p else p) (players db))
        = map_option (statsUpdates player run ex) (find (\<lambda>p. p_id p = pid) (players db))"
    by (rule find_map_upd) simp
  with assms show ?thesis
    by (simp add: updatePlayerStats_def updatePlayer_def getPlayer_def)
qed

lemma or0_stored: "or0 x = (case x of None \<Rightarrow> 0 | Some n \<Rightarrow> n)"
  by (cases x) simp_all

text \<open>
  C9. When the player row exists, one call of the aggregator leaves the row with the
  stored total counter plus 1, the stored in-time counter plus 1 exactly when
  \<open>clearTimeMs \<le> parTimeMs\<close> (the stored over-time counter plus 1 otherwise), and exactly
  the one bracket counter chosen by \<open>level \<le> 6\<close> low, \<open>\<le> 9\<close> mid, \<open>\<le> 14\<close> high, else
  elite at its stored value plus 1; the other three bracket counters keep their stored
  value. A stored value \<open>Some n\<close> counts as \<open>n\<close>, a stored \<^verbatim>\<open>null\<close> as 0.
\<close>

theorem C9_updatePlayerStats_counters:
  assumes "getPlayer pid db = Some player"
  shows "\<exists>player'. getPlayer pid (updatePlayerStats pid run ex db) = Some player'
     \<and> p_totalRunsTracked player'
         = Some ((case p_totalRunsTracked player of None \<Rightarrow> 0 | Some n \<Rightarrow> n) + 1)
     \<and> p_runsInTime player'
         = Some ((case p_runsInTime player of None \<Rightarrow> 0 | Some n \<Rightarrow> n)
                 + (if sr_clearTimeMs run \<le> sr_parTimeMs run then 1 else 0))
     \<and> p_runsOverTime player'
         = Some ((case p_runsOverTime player of None \<Rightarrow> 0 | Some n \<Rightarrow> n)
                 + (if sr_clearTimeMs run \<le> sr_parTimeMs run then 0 else 1))
     \<and> p_runsByLevelLow player'
         = (if sr_keyLevel run \<le> 6
            then Some ((case p_runsByLevelLow player of None \<Rightarrow> 0 | Some n \<Rightarrow> n) + 1)
            else p_runsByLevelLow player)
     \<and> p_runsByLevelMid player'
         = (if 6 < sr_keyLevel run \<and> sr_keyLevel run \<le> 9
            then Some ((case p_runsByLevelMid player of None \<Rightarrow> 0 | Some n \<Rightarrow> n) + 1)
            else p_runsByLevelMid player)
     \<and> p_runsByLevelHigh player'
         = (if 9 < sr_keyLevel run \<and> sr_keyLevel run \<le> 14
            then Some ((case p_runsByLevelHigh player of None \<Rightarrow> 0 | Some n \<Rightarrow> n) + 1)
            else p_runsByLevelHigh player)
     \<and> p_runsByLevelElite player'
         = (if 14 < sr_keyLevel run
            then Some ((case p_runsByLevelElite player of None \<Rightarrow> 0 | Some n \<Rightarrow> n) + 1)
            else p_runsByLevelElite player)"
proof -
  have "getPlayer pid (updatePlayerStats pid run ex db)
          = Some (statsUpdates player run ex player)"
    using assms by (rule getPlayer_updatePlayerStats)
  moreover have
    "p_totalRunsTracked (statsUpdates player run ex player)
       = Some ((case p_totalRunsTracked player of None \<Rightarrow> 0 | Some n \<Rightarrow> n) + 1)"
    "p_runsInTime (statsUpdates player run ex player)
       = Some ((case p_runsInTime player of None \<Rightarrow> 0 | Some n \<Rightarrow> n)
               + (if sr_clearTimeMs run \<le> sr_parTimeMs run then 1 else 0))"
    "p_runsOverTime (statsUpdates player run ex player)
       = Some ((case p_runsOverTime player of None \<Rightarrow> 0 | Some n \<Rightarrow> n)
               + (if sr_clearTimeMs run \<le> sr_parTimeMs run then 0 else 1))"
    by (simp_all add: statsUpdates_def Let_def levelBucketOf_def setBucket_def bucketValue_def
        or0_stored)
  moreover have
    "p_runsByLevelLow (statsUpdates player run ex player)
       = (if sr_keyLevel run \<le> 6
          then Some ((case p_runsByLevelLow player of None \<Rightarrow> 0 | Some n \<Rightarrow> n) + 1)
          else p_runsByLevelLow player)"
    "p_runsByLevelMid (statsUpdates player run ex player)
       = (if 6 < sr_keyLevel run \<and> sr_keyLevel run \<le> 9
          then Some ((case p_runsByLevelMid player of None \<Rightarrow> 0 | Some n \<Rightarrow> n) + 1)
          else p_runsByLevelMid player)"
    "p_runsByLevelHigh (statsUpdates player run ex player)
       = (if 9 < sr_keyLevel run \<and> sr_keyLevel run \<le> 14
          then Some ((case p_runsByLevelHigh player of None \<Rightarrow> 0 | Some n \<Rightarrow> n) + 1)
          else p_runsByLevelHigh player)"
    "p_runsByLevelElite (statsUpdates player run ex player)
       = (if 14 < sr_keyLevel run
          then Some ((case p_runsByLevelElite player of None \<Rightarrow> 0 | Some n \<Rightarrow> n) + 1)
          else p_runsByLevelElite player)"
    by (simp_all add: statsUpdates_def Let_def levelBucketOf_def setBucket_def bucketValue_def
        or0_stored)
  ultimately show ?thesis
    by blast
qed

text \<open>C9, example. The run with \<open>clearTimeMs = 500000\<close>, \<open>parTimeMs = 600000\<close>,
  \<open>keyLevel = 8\<close> applied to a player whose counters are all 0 (total, in-time and mid
  bracket become 1), and to a player with 7 runs tracked, 4 in time, 3 over time and 2 in
  the mid bracket (they become 8, 5, 3 and 3; the low bracket stays 5).\<close>

theorem C9_witness:
  "(\<exists>player'. getPlayer 1 (updatePlayerStats 1 exampleStatsRun []
                  (exampleDB [examplePlayer 1 ''Foo'' ''Realm'' True])) = Some player'
      \<and> p_totalRunsTracked player' = Some 1
      \<and> p_runsInTime player' = Some 1
      \<and> p_runsByLevelMid player' = Some 1)
   \<and> (\<exists>player'. getPlayer 2 (updatePlayerStats 2 exampleStatsRun [] (exampleDB [seasonedPlayer]))
                    = Some player'
        \<and> p_totalRunsTracked player' = Some 8
        \<and> p_runsInTime player' = Some 5
        \<and> p_runsOverTime player' = Some 3
        \<and> p_runsByLevelLow player' = Some 5
        \<and> p_runsByLevelMid player' = Some 3)"
proof -
  have h1: "getPlayer 1 (exampleDB [examplePlayer 1 ''Foo'' ''Realm'' True])
     = Some (examplePlayer 1 ''Foo'' ''Realm'' True)"
    by (simp add: getPlayer_def exampleDB_def examplePlayer_def)
  have h2: "getPlayer 2 (exampleDB [seasonedPlayer]) = Some seasonedPlayer"
    by (simp add: getPlayer_def exampleDB_def seasonedPlayer_def examplePlayer_def)
  have zero: "\<exists>player'. getPlayer 1 (updatePlayerStats 1 exampleStatsRun []
                  (exampleDB [examplePlayer 1 ''Foo'' ''Realm'' True])) = Some player'
      \<and> p_totalRunsTracked player' = Some 1
      \<and> p_runsInTime player' = Some 1
      \<and> p_runsByLevelMid player' = Some 1"
    using C9_updatePlayerStats_counters [OF h1, of exampleStatsRun "[]"]
    by (auto simp add: examplePlayer_def exampleStatsRun_def)
  have seasoned: "\<exists>player'. getPlayer 2 (updatePlayerStats 2 exampleStatsRun []
                    (exampleDB [seasonedPlayer])) = Some player'
        \<and> p_totalRunsTracked player' = Some 8
        \<and> p_runsInTime player' = Some 5
        \<and> p_runsOverTime player' = Some 3
        \<and> p_runsByLevelLow player' = Some 5
        \<and> p_runsByLevelMid player' = Some 3"
    using C9_updatePlayerStats_counters [OF h2, of exampleStatsRun "[]"]
    by (auto simp add: seasonedPlayer_def examplePlayer_def exampleStatsRun_def)
  show ?thesis
    using zero seasoned by blast
qed

section \<open>Properties of the run deduplicator\<close>

text \<open>
  C7, counterexample. A candidate with a URL that the deduplicator has never seen is still reported as not new
  when a stored run without URL has the same dungeon, key level and UTC day: the URL alone
  does not decide.
\<close>

theorem C7_counterexample:
  "truthyStr (rr_url (exampleRun (Some ''https://raider.io/mythic-plus-runs/season-tww-3/123-8-ara-kara'') 300))
   \<and> the (rr_url (exampleRun (Some ''https://raider.io/mythic-plus-runs/season-tww-3/123-8-ara-kara'') 300))
        \<notin> urlSet (newRunDeduplicator [exampleStoredRun])
   \<and> \<not> isNewRun (newRunDeduplicator [exampleStoredRun])
          (exampleRun (Some ''https://raider.io/mythic-plus-runs/season-tww-3/123-8-ara-kara'') 300)"
  by (simp add: exampleRun_def exampleStoredRun_def newRunDeduplicator_def isNewRun_def
      makeCompositeKey_def normalizeTimestamp_def Let_def)

text \<open>
  C7 (amended). For a candidate that carries a non-empty URL, \<^verbatim>\<open>isNewRun\<close> is true
  if and only if the URL is not in the set of seen URLs and the candidate's composite key
  (dungeon, key level, UTC day) is not in the set of composite keys of the seen runs that
  have no URL.
\<close>

theorem C7_isNewRun_with_url:
  assumes "truthyStr (rr_url run)"
  shows "isNewRun d run \<longleftrightarrow>
     (the (rr_url run) \<notin> urlSet d
      \<and> makeCompositeKey (rr_dungeon run) (rr_mythic_level run) (rr_completed_at run)
          \<notin> compositeKeySet d)"
  using assms by (simp add: isNewRun_def Let_def)

text \<open>C7, example. A candidate with a URL against a deduplicator that has seen nothing:
  the run is new.\<close>

theorem C7_witness:
  "truthyStr (rr_url (exampleRun (Some ''u/1-x'') 300))
   \<and> (isNewRun (newRunDeduplicator []) (exampleRun (Some ''u/1-x'') 300) \<longleftrightarrow>
       (the (rr_url (exampleRun (Some ''u/1-x'') 300)) \<notin> urlSet (newRunDeduplicator [])
        \<and> makeCompositeKey (rr_dungeon (exampleRun (Some ''u/1-x'') 300))
             (rr_mythic_level (exampleRun (Some ''u/1-x'') 300))
             (rr_completed_at (exampleRun (Some ''u/1-x'') 300))
            \<notin> compositeKeySet (newRunDeduplicator [])))
   \<and> isNewRun (newRunDeduplicator []) (exampleRun (Some ''u/1-x'') 300)"
proof -
  have h: "truthyStr (rr_url (exampleRun (Some ''u/1-x'') 300))"
    by (simp add: exampleRun_def)
  show ?thesis
    using h C7_isNewRun_with_url [OF h, of "newRunDeduplicator []"]
    by (simp add: newRunDeduplicator_def)
qed

section \<open>Properties of the mythic-run upsert\<close>

lemma find_append_last:
  assumes "find P xs = None" and "P x"
  shows "find P (xs @ [x]) = Some x"
  using assms by (induction xs) (auto split: if_splits)







section \<open>Properties of guild-run detection\<close>

lemma refreshGuildPlayerCache_fold:
  assumes "foldl (\<lambda>cache player.
              if p_isActive player = Some True
              then cache(toLowerCase (p_name player) @ ''-'' @ normalizeRealm (p_realm player)
                         \<mapsto> player)
              else cache) m ps k = Some p"
  shows "m k = Some p \<or> (p \<in> set ps \<and> p_isActive p = Some True)"
  using assms by (induction ps arbitrary: p rule: rev_induct) (auto split: if_splits)

lemma refreshGuildPlayerCache_active:
  assumes "refreshGuildPlayerCache db k = Some p"
  shows "p \<in> set (players db) \<and> p_isActive p = Some True"
  using refreshGuildPlayerCache_fold [of Map.empty "players db" k p] assms
  by (simp add: refreshGuildPlayerCache_def)







section \<open>Properties of the upload handler\<close>

lemma keepsActive_refl [simp]: "keepsActive ps ps"
  by (simp add: keepsActive_def)

lemma keepsActive_trans:
  assumes "keepsActive ps qs" and "keepsActive qs rs"
  shows "keepsActive ps rs"
  using assms unfolding keepsActive_def
  by (metis (no_types, lifting) le_trans less_le_trans)

lemma keepsActive_map:
  assumes "\<And>p. p_id (f p) = p_id p \<and> p_name (f p) = p_name p \<and> p_realm (f p) = p_realm p
              \<and> (p_isActive p = Some True \<longrightarrow> p_isActive (f p) = Some True)"
  shows "keepsActive ps (map f ps)"
  using assms by (simp add: keepsActive_def)

lemma keepsActive_append: "keepsActive ps (ps @ qs)"
  by (simp add: keepsActive_def nth_append)

lemma updatePlayer_keeps:
  assumes "\<And>p. p_id (upd p) = p_id p \<and> p_name (upd p) = p_name p \<and> p_realm (upd p) = p_realm p
              \<and> (p_isActive p = Some True \<longrightarrow> p_isActive (upd p) = Some True)"
  shows "keepsActive (players db) (players (updatePlayer pid upd db))"
  unfolding updatePlayer_def using assms by (auto intro!: keepsActive_map)

lemma createPlayer_keeps: "keepsActive (players db) (players (createPlayer pd db))"
  by (simp add: createPlayer_def keepsActive_append)

lemma upsertPlayer_keeps:
  assumes "pd_isActive pd \<noteq> Some False"
  shows "keepsActive (players db) (players (upsertPlayer pd db))"
proof (cases "getPlayerByName (pd_name pd) (pd_realm pd) db")
  case None
  then show ?thesis by (simp add: upsertPlayer_def createPlayer_keeps)
next
  case (Some existing)
  have "keepsActive (players db) (players (updatePlayer (p_id existing) (upsertUpdates pd) db))"
    using assms by (intro updatePlayer_keeps) (auto simp: upsertUpdates_def split: option.splits)
  with Some show ?thesis by (simp add: upsertPlayer_def)
qed

lemma updatePlayerLastSeen_keeps:
  "keepsActive (players db) (players (updatePlayerLastSeen n r t db))"
  by (cases "getPlayerByName n r db") (simp_all add: updatePlayerLastSeen_def updatePlayer_keeps)

lemma foldl_pair_keeps:
  assumes "\<And>acc x. keepsActive (players (snd acc)) (players (snd (f acc x)))"
  shows "keepsActive (players (snd acc)) (players (snd (foldl f acc xs)))"
proof (induction xs arbitrary: acc)
  case Nil
  show ?case by simp
next
  case (Cons x xs)
  have "keepsActive (players (snd acc)) (players (snd (f acc x)))"
    by (rule assms)
  moreover have "keepsActive (players (snd (f acc x))) (players (snd (foldl f (f acc x) xs)))"
    by (rule Cons.IH)
  ultimately show ?case
    by (simp add: keepsActive_trans)
qed

lemma foldl_db_keeps:
  assumes "\<And>db x. keepsActive (players db) (players (f db x))"
  shows "keepsActive (players db) (players (foldl f db xs))"
proof (induction xs arbitrary: db)
  case Nil
  show ?case by simp
next
  case (Cons x xs)
  show ?case
    using assms [of db x] Cons.IH [of "f db x"] by (simp add: keepsActive_trans)
qed

lemma rosterPlayerData_active [simp]:
  "pd_isActive (rosterPlayerData fullName defaultRealm cls lvl rank) = Some True"
  by (simp add: rosterPlayerData_def)

lemma upsertRosterPlayers_keeps:
  "keepsActive (players db) (players (snd (upsertRosterPlayers data defaultRealm db)))"
proof (cases "ud_master_roster data")
  case None
  then show ?thesis by (simp add: upsertRosterPlayers_def)
next
  case (Some roster)
  have "keepsActive (players (snd (0::nat, db)))
          (players (snd (foldl (\<lambda>acc fe.
                   (Suc (fst acc),
                    upsertPlayer (rosterPlayerData (fst fe) defaultRealm (mre_class (snd fe))
                                    (mre_lvl (snd fe)) (mre_rank (snd fe)))
                                 (snd acc)))
                (0, db) roster)))"
    by (rule foldl_pair_keeps) (simp add: upsertPlayer_keeps)
  with Some show ?thesis by (simp add: upsertRosterPlayers_def)
qed

lemma processOnlinePlayer_keeps:
  "keepsActive (players db) (players (processOnlinePlayer defaultRealm t db fe))"
proof -
  let ?nr = "parsePlayerName (fst fe) defaultRealm"
  let ?db1 = "updatePlayerLastSeen (fst ?nr) (snd ?nr) t db"
  have a: "keepsActive (players db) (players ?db1)"
    by (rule updatePlayerLastSeen_keeps)
  have b: "keepsActive (players ?db1) (players (upsertPlayer pd ?db1))"
    if "pd_isActive pd \<noteq> Some False" for pd
    using that by (rule upsertPlayer_keeps)
  show ?thesis
    unfolding processOnlinePlayer_def Let_def
    using a keepsActive_trans [OF a b] by simp
qed

lemma processSnapshot_keeps:
  "keepsActive (players (snd acc)) (players (snd (processSnapshot defaultRealm acc snapshot)))"
  by (cases "ss_iso snapshot")
     (simp_all add: processSnapshot_def foldl_db_keeps processOnlinePlayer_keeps)

lemma processStats_keeps:
  "keepsActive (players db) (players (snd (processStats data defaultRealm db)))"
proof (cases "ud_stats data")
  case None
  then show ?thesis by (simp add: processStats_def)
next
  case (Some statsArray)
  have "keepsActive (players (snd (0::nat, db)))
          (players (snd (foldl (processSnapshot defaultRealm) (0, db) statsArray)))"
    by (rule foldl_pair_keeps) (rule processSnapshot_keeps)
  with Some show ?thesis by (simp add: processStats_def)
qed

lemma processChatEntry_keeps:
  "keepsActive (players (snd acc)) (players (snd (processChatEntry defaultRealm acc fe)))"
proof -
  have "keepsActive (players (snd acc))
          (players (updatePlayer pid (chatUpdates (snd fe)) (snd acc)))" for pid
    by (rule updatePlayer_keeps) (simp add: chatUpdates_def)
  then show ?thesis
    by (simp add: processChatEntry_def Let_def split: option.splits)
qed

lemma processChatData_keeps:
  "keepsActive (players db) (players (snd (processChatData data defaultRealm db)))"
proof (cases "ud_data data")
  case None
  then show ?thesis by (simp add: processChatData_def)
next
  case (Some entries)
  have "keepsActive (players (snd (0::nat, db)))
          (players (snd (foldl (processChatEntry defaultRealm) (0, db) entries)))"
    by (rule foldl_pair_keeps) (rule processChatEntry_keeps)
  with Some show ?thesis by (simp add: processChatData_def)
qed

lemma players_clearUploadSession [simp]: "players (clearUploadSession now db) = players db"
  by (simp add: clearUploadSession_def split: option.splits)

lemma players_startUploadSession [simp]: "players (startUploadSession sid now db) = players db"
  by (simp add: startUploadSession_def split: option.splits)

lemma players_incrementUploadProcessedCount [simp]:
  "players (incrementUploadProcessedCount n db) = players db"
  by (simp add: incrementUploadProcessedCount_def split: option.splits)

lemma players_ensureUploaderStatus [simp]:
  "players (snd (ensureUploaderStatus dflt uid db)) = players db"
  by (simp add: ensureUploaderStatus_def Let_def split: option.splits)

lemma players_updateUploaderStatus [simp]:
  "players (snd (updateUploaderStatus dflt uid upd now db)) = players db"
  by (simp add: updateUploaderStatus_def Let_def)

lemma players_markUploaderOutOfOrder [simp]:
  "players (snd (markUploaderOutOfOrder dflt uid e r sid tb ph now db)) = players db"
  by (simp add: markUploaderOutOfOrder_def)

lemma players_openSession [simp]:
  "players (snd (openSession dflt now uid data db)) = players db"
  by (simp add: openSession_def Let_def)

lemma players_trackUploader [simp]:
  "players (trackUploader dflt now uid data sid db) = players db"
  by (simp add: trackUploader_def Let_def)

lemma processRoster_keeps:
  assumes mode: "rosterMode \<noteq> None"
    and safe: "\<not> guard \<or> sessionPhase = Some phase_start \<or> sessionPhase = Some phase_chunk"
  shows "keepsActive (players db)
           (players (snd (processRoster rosterMode sessionPhase sid isFinal guard removed data
                            defaultRealm now db)))"
proof (cases "rosterMode = Some mode_no_change")
  case True
  then show ?thesis by (simp add: processRoster_def)
next
  case False
  with mode have df: "rosterMode = Some mode_delta \<or> rosterMode = Some mode_full"
    by (cases rosterMode) (auto intro: RosterMode.exhaust)
  have up: "keepsActive (players d) (players (snd (upsertRosterPlayers data defaultRealm d)))" for d
    by (rule upsertRosterPlayers_keeps)
  show ?thesis
  proof (cases sessionPhase)
    case None
    with safe have "\<not> guard" by simp
    with None False df up [of db] show ?thesis
      by (auto simp: processRoster_def processRemovals_def Let_def)
  next
    case (Some phase)
    show ?thesis
    proof (cases phase)
      case phase_start
      have "keepsActive (players db) (players (snd (upsertRosterPlayers data defaultRealm
                (startUploadSession (the sid) now db))))"
        using up [of "startUploadSession (the sid) now db"] by simp
      with Some phase_start False df up [of db] show ?thesis
        by (auto simp: processRoster_def Let_def)
    next
      case phase_chunk
      with Some False df up [of db] show ?thesis
        by (auto simp: processRoster_def Let_def)
    next
      case phase_final
      with Some safe have "\<not> guard" by simp
      with Some phase_final False df up [of db] show ?thesis
        by (auto simp: processRoster_def processRemovals_def Let_def)
    qed
  qed
qed

lemma removalGuard_never_passes:
  "removalGuardPassedOf (addonUploadSchema_parse body) = False"
  by (simp add: removalGuardPassedOf_def confirmRemovalsOf_def baseRosterHashOf_def
      undeclaredKey_def orElseStr_def)

lemma uploadHandler_keeps:
  assumes mode: "rosterModeOf (addonUploadSchema_parse body) \<noteq> None"
    and safe: "\<not> removalGuardPassedOf (addonUploadSchema_parse body)
               \<or> sessionPhaseOf (addonUploadSchema_parse body) = Some phase_start
               \<or> sessionPhaseOf (addonUploadSchema_parse body) = Some phase_chunk"
  shows "keepsActive (players db) (players (snd (uploadHandler dflt now uid body db)))"
proof -
  let ?data = "addonUploadSchema_parse body"
  let ?realm = "case guildSettings db of
               Some settings \<Rightarrow> orStr (Some (gs_realm settings)) ''Unknown''
             | None \<Rightarrow> ''Unknown''"
  let ?db1 = "snd (openSession dflt now uid ?data db)"
  let ?roster = "processRoster (rosterModeOf ?data) (sessionPhaseOf ?data)
                   (ud_upload_session_id ?data) (ud_is_final_batch ?data = Some True)
                   (removalGuardPassedOf ?data) (removedMembersOf ?data) ?data ?realm now ?db1"
  let ?db2 = "if rosterModeOf ?data \<noteq> None \<and> fst (fst ?roster) > 0
              then incrementUploadProcessedCount (fst (fst ?roster)) (snd ?roster)
              else snd ?roster"
  let ?stats = "processStats ?data ?realm ?db2"
  let ?chat = "processChatData ?data ?realm (snd ?stats)"
  have r: "keepsActive (players db) (players (snd ?roster))"
    using processRoster_keeps [OF mode safe, of ?db1] by simp
  then have r2: "keepsActive (players db) (players ?db2)"
    by simp
  have s: "keepsActive (players ?db2) (players (snd ?stats))"
    by (rule processStats_keeps)
  have c: "keepsActive (players (snd ?stats)) (players (snd ?chat))"
    by (rule processChatData_keeps)
  have all: "keepsActive (players db) (players (snd ?chat))"
    using r2 s c by (blast intro: keepsActive_trans)
  show ?thesis
    unfolding uploadHandler_def Let_def
    using all by simp
qed

lemma keepsActive_at:
  assumes "keepsActive ps ps'" and "i < length ps" and "p_isActive (ps ! i) = Some True"
  shows "i < length ps' \<and> p_id (ps' ! i) = p_id (ps ! i) \<and> p_name (ps' ! i) = p_name (ps ! i)
         \<and> p_realm (ps' ! i) = p_realm (ps ! i) \<and> p_isActive (ps' ! i) = Some True"
  using assms by (auto simp: keepsActive_def)

text \<open>
  C2. A chunk-phase upload in a declared roster mode (delta, full or no-change), accepted
  or not, deactivates no player: every row that was active before the request is still
  there afterwards, at the same position, with the same id, name and realm, and active. In
  particular a previously active player B whose name-realm is absent from the batch's
  \<^verbatim>\<open>master_roster\<close> keeps \<^verbatim>\<open>isActive = true\<close>.
\<close>

theorem C2_chunk_never_deactivates:
  assumes "rosterModeOf (addonUploadSchema_parse body) \<noteq> None"
    and "sessionPhaseOf (addonUploadSchema_parse body) = Some phase_chunk"
    and "i < length (players db)"
    and "p_isActive (players db ! i) = Some True"
  shows "i < length (players (snd (uploadHandler dflt now uid body db)))
     \<and> p_id (players (snd (uploadHandler dflt now uid body db)) ! i) = p_id (players db ! i)
     \<and> p_name (players (snd (uploadHandler dflt now uid body db)) ! i) = p_name (players db ! i)
     \<and> p_realm (players (snd (uploadHandler dflt now uid body db)) ! i) = p_realm (players db ! i)
     \<and> p_isActive (players (snd (uploadHandler dflt now uid body db)) ! i) = Some True"
proof -
  have "keepsActive (players db) (players (snd (uploadHandler dflt now uid body db)))"
    using assms(1,2) by (intro uploadHandler_keeps) simp_all
  then show ?thesis
    using assms(3,4) by (rule keepsActive_at)
qed

lemma find_map_first:
  assumes "find P xs = Some c" and "\<And>s. P (g s) = P s"
  shows "find P (map (\<lambda>s. if Q s then g s else s) xs) = Some (if Q c then g c else c)"
  using assms by (induction xs) (auto split: if_splits)

lemma ensureUploaderStatus_found:
  "getUploaderStatusRecord uid (snd (ensureUploaderStatus dflt uid db))
     = Some (fst (ensureUploaderStatus dflt uid db))"
proof (cases "getUploaderStatusRecord uid db")
  case None
  then have "find (\<lambda>s. us_uploaderId s = uid)
               (uploaderStatuses db @ [dflt\<lparr>us_id := nextId db, us_uploaderId := uid\<rparr>])
             = Some (dflt\<lparr>us_id := nextId db, us_uploaderId := uid\<rparr>)"
    by (intro find_append_last) (simp_all add: getUploaderStatusRecord_def)
  with None show ?thesis
    by (simp add: ensureUploaderStatus_def getUploaderStatusRecord_def Let_def)
next
  case (Some existing)
  then show ?thesis by (simp add: ensureUploaderStatus_def)
qed

lemma updateUploaderStatus_found:
  assumes "\<And>s. us_uploaderId (upd s) = us_uploaderId s"
  shows "getUploaderStatusRecord uid (snd (updateUploaderStatus dflt uid upd now db))
     = Some ((upd (fst (ensureUploaderStatus dflt uid db)))\<lparr>us_updatedAt := Some now\<rparr>)"
proof -
  let ?cur = "fst (ensureUploaderStatus dflt uid db)"
  let ?db1 = "snd (ensureUploaderStatus dflt uid db)"
  have f: "find (\<lambda>s. us_uploaderId s = uid) (uploaderStatuses ?db1) = Some ?cur"
    using ensureUploaderStatus_found [of uid dflt db] by (simp add: getUploaderStatusRecord_def)
  have "find (\<lambda>s. us_uploaderId s = uid)
          (map (\<lambda>s. if us_id s = us_id ?cur then (upd s)\<lparr>us_updatedAt := Some now\<rparr> else s)
               (uploaderStatuses ?db1))
        = Some (if us_id ?cur = us_id ?cur then (upd ?cur)\<lparr>us_updatedAt := Some now\<rparr> else ?cur)"
    using f by (rule find_map_first) (simp add: assms)
  then show ?thesis
    by (simp add: updateUploaderStatus_def getUploaderStatusRecord_def Let_def)
qed

lemma markUploaderOutOfOrder_found:
  "\<exists>s. getUploaderStatusRecord uid
          (snd (markUploaderOutOfOrder dflt uid e (Some r) sid tb ph now db)) = Some s
       \<and> us_status s = Some ''out_of_order''
       \<and> us_expectedBatchIndex s = Some e
       \<and> us_lastBatchIndex s = Some r
       \<and> us_lastError s = Some (outOfOrderMessage e (Some r))"
  unfolding markUploaderOutOfOrder_def
  by (subst updateUploaderStatus_found) simp_all

text \<open>
  The rejection of a batch measured against the stored last batch index. Let a batched
  upload (a roster mode other than no-change, a session phase and a batch index \<open>r\<close>)
  carry an index that differs from the one the handler computes: 0 in the start phase,
  else the stored \<^verbatim>\<open>lastBatchIndex\<close> (\<open>-1\<close> when there is none, as after the reset
  that a new session id causes) plus 1. Then the response is the conflict with the
  computed and the received index, the players table is exactly what it was, and the
  uploader's status row has status \<open>out_of_order\<close>, the computed index as expected
  index, the received index as its last batch index, and an error text that names both.
  The stored \<^verbatim>\<open>lastBatchIndex\<close> is therefore the index of the last batch received,
  accepted or not.
\<close>

lemma uploadHandler_out_of_order:
  assumes batched: "isBatchedUploadOf (addonUploadSchema_parse body)"
    and received: "ud_batch_index (addonUploadSchema_parse body) = Some r"
    and mismatch: "r \<noteq> expectedIndexOf (addonUploadSchema_parse body)
                       (fst (openSession dflt now uid (addonUploadSchema_parse body) db))"
  shows "rejectedWith (fst (uploadHandler dflt now uid body db))
           = Some (expectedIndexOf (addonUploadSchema_parse body)
                     (fst (openSession dflt now uid (addonUploadSchema_parse body) db)), Some r)
     \<and> players (snd (uploadHandler dflt now uid body db)) = players db
     \<and> (\<exists>s. getUploaderStatusRecord uid (snd (uploadHandler dflt now uid body db)) = Some s
            \<and> us_status s = Some ''out_of_order''
            \<and> us_expectedBatchIndex s
                = Some (expectedIndexOf (addonUploadSchema_parse body)
                          (fst (openSession dflt now uid (addonUploadSchema_parse body) db)))
            \<and> us_lastBatchIndex s = Some r
            \<and> us_lastError s
                = Some (outOfOrderMessage
                          (expectedIndexOf (addonUploadSchema_parse body)
                             (fst (openSession dflt now uid (addonUploadSchema_parse body) db)))
                          (Some r)))"
proof -
  let ?data = "addonUploadSchema_parse body"
  let ?opened = "openSession dflt now uid ?data db"
  let ?e = "expectedIndexOf ?data (fst ?opened)"
  let ?sid = "nullish (ud_upload_session_id ?data)
                (us_lastSessionId (fst (ensureUploaderStatus dflt uid db)))"
  let ?marked = "markUploaderOutOfOrder dflt uid ?e (Some r) ?sid (ud_total_batches ?data)
                   (sessionPhaseOf ?data) now (snd ?opened)"
  have h: "uploadHandler dflt now uid body db = (Conflict409 ?e (Some r) (fst ?marked), snd ?marked)"
    using batched received mismatch by (simp add: uploadHandler_def Let_def)
  have a: "rejectedWith (fst (uploadHandler dflt now uid body db)) = Some (?e, Some r)"
    by (simp add: h rejectedWith_def)
  have b: "players (snd (uploadHandler dflt now uid body db)) = players db"
    by (simp add: h)
  have c: "\<exists>s. getUploaderStatusRecord uid (snd (uploadHandler dflt now uid body db)) = Some s
            \<and> us_status s = Some ''out_of_order''
            \<and> us_expectedBatchIndex s = Some ?e
            \<and> us_lastBatchIndex s = Some r
            \<and> us_lastError s = Some (outOfOrderMessage ?e (Some r))"
    unfolding h snd_conv by (rule markUploaderOutOfOrder_found)
  show ?thesis
    using a b c by blast
qed

lemma processRoster_no_removals:
  assumes "\<not> guard"
  shows "snd (fst (processRoster rosterMode sessionPhase sid isFinal guard removed data
                     defaultRealm now db)) = 0"
  using assms
  by (auto simp: processRoster_def processRemovals_def Let_def
           split: option.splits SessionPhase.splits)

lemma uploadHandler_no_removals:
  "removedCountOf (fst (uploadHandler dflt now uid body db)) = 0"
  by (simp add: uploadHandler_def Let_def removedCountOf_def removalGuard_never_passes
      processRoster_no_removals)

text \<open>
  C5. A final-phase upload in a declared roster mode reports no removal and deactivates
  no player, whatever its \<^verbatim>\<open>removed_members\<close> list and its removal flags are: every
  row that was active before the request is still there afterwards, at the same position,
  with the same id, name and realm, and active. This covers the upload that lists an
  active player A as removed and supplies neither \<^verbatim>\<open>confirm_removals\<close> nor
  \<^verbatim>\<open>base_roster_hash\<close>, or sets \<^verbatim>\<open>add_update_only\<close>.
\<close>

theorem C5_unconfirmed_removal_skipped:
  assumes "rosterModeOf (addonUploadSchema_parse body) \<noteq> None"
    and "sessionPhaseOf (addonUploadSchema_parse body) = Some phase_final"
    and "i < length (players db)"
    and "p_isActive (players db ! i) = Some True"
  shows "removedCountOf (fst (uploadHandler dflt now uid body db)) = 0
     \<and> i < length (players (snd (uploadHandler dflt now uid body db)))
     \<and> p_id (players (snd (uploadHandler dflt now uid body db)) ! i) = p_id (players db ! i)
     \<and> p_name (players (snd (uploadHandler dflt now uid body db)) ! i) = p_name (players db ! i)
     \<and> p_realm (players (snd (uploadHandler dflt now uid body db)) ! i) = p_realm (players db ! i)
     \<and> p_isActive (players (snd (uploadHandler dflt now uid body db)) ! i) = Some True"
proof -
  have "keepsActive (players db) (players (snd (uploadHandler dflt now uid body db)))"
    using assms(1) by (intro uploadHandler_keeps) (simp_all add: removalGuard_never_passes)
  then show ?thesis
    using assms(3,4) uploadHandler_no_removals [of dflt now uid body db]
    by (simp add: keepsActive_at)
qed

text \<open>C5, example. \<^verbatim>\<open>removed_members = ["A-Realm"]\<close> on the final
  phase, no confirmation; A stays active.\<close>

theorem C5_witness:
  "fst (uploadHandler exampleStatusDefaults 1000 ''u1'' unconfirmedBody removalDB) = Ok200 0 0 0 0
   \<and> p_name (players (snd (uploadHandler exampleStatusDefaults 1000 ''u1'' unconfirmedBody
                              removalDB)) ! 0) = ''A''
   \<and> p_isActive (players (snd (uploadHandler exampleStatusDefaults 1000 ''u1'' unconfirmedBody
                                  removalDB)) ! 0) = Some True"
proof -
  have h1: "rosterModeOf (addonUploadSchema_parse unconfirmedBody) \<noteq> None"
    by code_simp
  have h2: "sessionPhaseOf (addonUploadSchema_parse unconfirmedBody) = Some phase_final"
    by code_simp
  have h3: "0 < length (players removalDB)"
    by code_simp
  have h4: "p_isActive (players removalDB ! 0) = Some True"
    by code_simp
  have n: "p_name (players removalDB ! 0) = ''A''"
    by code_simp
  have r: "fst (uploadHandler exampleStatusDefaults 1000 ''u1'' unconfirmedBody removalDB)
             = Ok200 0 0 0 0"
    by code_simp
  show ?thesis
    using C5_unconfirmed_removal_skipped [OF h1 h2 h3 h4, of exampleStatusDefaults 1000 "''u1''"] n r
    by simp
qed

text \<open>C2, example. A chunk batch that brings Foo-Realm and omits the active player B.\<close>

theorem C2_witness:
  "fst (uploadHandler exampleStatusDefaults 1000 ''u1'' (batchBody phase_chunk 0) removalDB)
     = Ok200 1 0 0 0
   \<and> p_name (players (snd (uploadHandler exampleStatusDefaults 1000 ''u1''
                              (batchBody phase_chunk 0) removalDB)) ! 1) = ''B''
   \<and> p_isActive (players (snd (uploadHandler exampleStatusDefaults 1000 ''u1''
                                  (batchBody phase_chunk 0) removalDB)) ! 1) = Some True"
proof -
  have h1: "rosterModeOf (addonUploadSchema_parse (batchBody phase_chunk 0)) \<noteq> None"
    by code_simp
  have h2: "sessionPhaseOf (addonUploadSchema_parse (batchBody phase_chunk 0)) = Some phase_chunk"
    by code_simp
  have h3: "1 < length (players removalDB)"
    by code_simp
  have h4: "p_isActive (players removalDB ! 1) = Some True"
    by code_simp
  have n: "p_name (players removalDB ! 1) = ''B''"
    by code_simp
  have r: "fst (uploadHandler exampleStatusDefaults 1000 ''u1'' (batchBody phase_chunk 0) removalDB)
             = Ok200 1 0 0 0"
    by code_simp
  show ?thesis
    using C2_chunk_never_deactivates [OF h1 h2 h3 h4, of exampleStatusDefaults 1000 "''u1''"] n r
    by simp
qed

text \<open>After the start batch, index 3 arrives where 1 is expected.\<close>

lemma uploadHandler_out_of_order_example:
  "rejectedWith (fst (uploadHandler exampleStatusDefaults 2000 ''u1'' (batchBody phase_chunk 3)
                        afterStart)) = Some (1, Some 3)
   \<and> players (snd (uploadHandler exampleStatusDefaults 2000 ''u1'' (batchBody phase_chunk 3)
                      afterStart)) = players afterStart
   \<and> (\<exists>s. getUploaderStatusRecord ''u1''
             (snd (uploadHandler exampleStatusDefaults 2000 ''u1'' (batchBody phase_chunk 3)
                     afterStart)) = Some s
          \<and> us_status s = Some ''out_of_order''
          \<and> us_expectedBatchIndex s = Some 1
          \<and> us_lastBatchIndex s = Some 3
          \<and> us_lastError s = Some ''Out-of-order batch (expected 1, received 3)'')"
proof -
  let ?data = "addonUploadSchema_parse (batchBody phase_chunk 3)"
  have h1: "isBatchedUploadOf ?data"
    by code_simp
  have h2: "ud_batch_index ?data = Some 3"
    by code_simp
  have e: "expectedIndexOf ?data (fst (openSession exampleStatusDefaults 2000 ''u1'' ?data afterStart))
             = 1"
    by code_simp
  have h3: "3 \<noteq> expectedIndexOf ?data
                   (fst (openSession exampleStatusDefaults 2000 ''u1'' ?data afterStart))"
    by (simp add: e)
  have m: "outOfOrderMessage 1 (Some 3) = ''Out-of-order batch (expected 1, received 3)''"
    by code_simp
  show ?thesis
    using uploadHandler_out_of_order [OF h1 h2 h3] by (simp add: e m)
qed

text \<open>
  C1 at a concrete input. Players A and B are active; a final-phase upload in full mode
  lists \<^verbatim>\<open>"A-Realm"\<close> in \<^verbatim>\<open>removed_members\<close> and sets
  \<^verbatim>\<open>confirm_removals = true\<close>. The handler answers success with 0 players removed
  and A is still active: the parsed payload has no \<^verbatim>\<open>confirm_removals\<close> key
  (\<open>removalGuard_never_passes\<close>), so the removal guard fails.
\<close>

theorem C1_removal_not_applied:
  "fst (uploadHandler exampleStatusDefaults 1000 ''u1'' removalBody removalDB) = Ok200 0 0 0 0
   \<and> map p_isActive (players (snd (uploadHandler exampleStatusDefaults 1000 ''u1'' removalBody
                                      removalDB)))
       = [Some True, Some True]"
  by code_simp

text \<open>
  C4 at a concrete input. Uploader \<open>u1\<close> opens session \<open>s1\<close> with the start batch
  (index 0), which is accepted. Its chunk with index 3 is rejected with expected index 1.
  The chunk re-sent with index 1 in the same session is rejected again, now with expected
  index 4: the rejection stored the received index 3 as the last batch index.
\<close>

theorem C4_resend_rejected_again:
  "fst (uploadHandler exampleStatusDefaults 1000 ''u1'' (batchBody phase_start 0) (exampleDB []))
     = Ok200 1 0 0 0
   \<and> rejectedWith (fst (uploadHandler exampleStatusDefaults 2000 ''u1'' (batchBody phase_chunk 3)
                          afterStart)) = Some (1, Some 3)
   \<and> rejectedWith (fst (uploadHandler exampleStatusDefaults 3000 ''u1'' (batchBody phase_chunk 1)
                          afterRejected)) = Some (4, Some 1)"
  by code_simp

text \<open>
  C3 at a concrete input. Uploader \<open>u1\<close> opens session \<open>s1\<close> with the start batch
  (index 0), which is accepted and stores player Foo; index 0 is the last accepted
  index, so every later batch of the session is expected to carry index 1 until one is
  accepted. The chunk with index 3 is rejected with expected index 1. The chunk with
  index 4, which differs from 1 as well, is then accepted: the response is the success
  with one player processed, the player Bar of its roster is created, and the status row
  is back to \<open>processing\<close> with last batch index 4. The handler compares with the stored
  \<^verbatim>\<open>lastBatchIndex\<close> plus 1, and the rejection has stored the rejected index 3 there.
\<close>

theorem C3_stale_index_accepted:
  "fst (uploadHandler exampleStatusDefaults 1000 ''u1'' (batchBody phase_start 0) (exampleDB []))
     = Ok200 1 0 0 0
   \<and> map_option us_lastBatchIndex (getUploaderStatusRecord ''u1'' afterStart) = Some (Some 0)
   \<and> rejectedWith (fst (uploadHandler exampleStatusDefaults 2000 ''u1'' (batchBody phase_chunk 3)
                          afterStart)) = Some (1, Some 3)
   \<and> map p_name (players afterRejected) = [''Foo'']
   \<and> ud_batch_index (addonUploadSchema_parse skippedAheadBody) = Some 4
   \<and> isBatchedUploadOf (addonUploadSchema_parse skippedAheadBody)
   \<and> fst (uploadHandler exampleStatusDefaults 3000 ''u1'' skippedAheadBody afterRejected)
       = Ok200 1 0 0 0
   \<and> rejectedWith (fst (uploadHandler exampleStatusDefaults 3000 ''u1'' skippedAheadBody
                          afterRejected)) = None
   \<and> map p_name (players (snd (uploadHandler exampleStatusDefaults 3000 ''u1'' skippedAheadBody
                                  afterRejected)))
       = [''Foo'', ''Bar'']
   \<and> map_option (\<lambda>s. (us_status s, us_lastBatchIndex s))
        (getUploaderStatusRecord ''u1''
           (snd (uploadHandler exampleStatusDefaults 3000 ''u1'' skippedAheadBody afterRejected)))
       = Some (Some ''processing'', Some 4)"
  by code_simp

section \<open>Properties of the per-player sync\<close>

lemma guild_updatePlayer [simp]:
  "guildMythicRuns (updatePlayer pid upd db) = guildMythicRuns db"
  "activityEvents (updatePlayer pid upd db) = activityEvents db"
  "mythicRuns (updatePlayer pid upd db) = mythicRuns db"
  by (simp_all add: updatePlayer_def)

lemma guild_updatePlayerStats [simp]:
  "guildMythicRuns (updatePlayerStats pid run ex db) = guildMythicRuns db"
  "activityEvents (updatePlayerStats pid run ex db) = activityEvents db"
  "mythicRuns (updatePlayerStats pid run ex db) = mythicRuns db"
  by (simp_all add: updatePlayerStats_def split: option.splits)

lemma guild_upsertMythicRun [simp]:
  "guildMythicRuns (snd (upsertMythicRun ins db)) = guildMythicRuns db"
  "activityEvents (snd (upsertMythicRun ins db)) = activityEvents db"
  by (simp_all add: upsertMythicRun_def Let_def split: option.splits)

lemma guild_deleteOldMythicRuns [simp]:
  "guildMythicRuns (snd (deleteOldMythicRuns pid k db)) = guildMythicRuns db"
  "activityEvents (snd (deleteOldMythicRuns pid k db)) = activityEvents db"
  by (simp_all add: deleteOldMythicRuns_def Let_def)

lemma guild_syncRunStep [simp]:
  "guildMythicRuns (snd (snd (syncRunStep pid acc run))) = guildMythicRuns (snd (snd acc))"
  "activityEvents (snd (snd (syncRunStep pid acc run))) = activityEvents (snd (snd acc))"
  by (simp_all add: syncRunStep_def Let_def)

lemma guild_syncRunLoop [simp]:
  "guildMythicRuns (snd (snd (foldl (syncRunStep pid) acc runs))) = guildMythicRuns (snd (snd acc))"
  "activityEvents (snd (snd (foldl (syncRunStep pid) acc runs))) = activityEvents (snd (snd acc))"
  by (induction runs arbitrary: acc) simp_all

lemma mythicRuns_processGuildRun [simp]:
  "mythicRuns (snd (processGuildRun cache run acc)) = mythicRuns (snd acc)"
  by (simp add: processGuildRun_def Let_def split: option.splits)

lemma mythicRuns_processGuildRuns [simp]:
  "mythicRuns (snd (processGuildRuns cache runs db)) = mythicRuns db"
proof -
  have "mythicRuns (snd (foldl (\<lambda>acc run. processGuildRun cache run acc) acc runs))
          = mythicRuns (snd acc)" for acc
    by (induction runs arbitrary: acc) simp_all
  then show ?thesis by (simp add: processGuildRuns_def)
qed

lemma mythicRuns_detectGuildRuns [simp]:
  "mythicRuns (detectGuildRuns fetchDetails cache profile db) = mythicRuns db"
  by (simp add: detectGuildRuns_def Let_def split: option.splits)

lemma deleteOldMythicRuns_bound:
  "length (filter (\<lambda>r. mr_playerId r = pid) (mythicRuns (snd (deleteOldMythicRuns pid k db)))) \<le> k"
proof -
  let ?P = "\<lambda>r. mr_playerId r = pid"
  let ?sorted = "getMythicRuns pid db"
  let ?ids = "map mr_id ?sorted"
  have len: "length ?sorted = length (filter ?P (mythicRuns db))"
    by (simp add: getMythicRuns_def)
  show ?thesis
  proof (cases "length ?ids \<le> k")
    case True
    then show ?thesis
      using len by (simp add: deleteOldMythicRuns_def Let_def)
  next
    case False
    let ?S = "set (drop k ?ids)"
    let ?Q = "\<lambda>r. mr_id r \<notin> ?S"
    have "filter ?P (filter ?Q (mythicRuns db)) = filter ?Q (filter ?P (mythicRuns db))"
      by (simp add: conj_commute)
    then have "length (filter ?P (filter ?Q (mythicRuns db)))
                 = length (filter ?Q (filter ?P (mythicRuns db)))"
      by simp
    also have "\<dots> = length (sort_key (\<lambda>r. - mr_timestamp r) (filter ?Q (filter ?P (mythicRuns db))))"
      by simp
    also have "\<dots> = length (filter ?Q ?sorted)"
      by (simp add: getMythicRuns_def filter_sort)
    also have "\<dots> = length (filter ?Q (take k ?sorted)) + length (filter ?Q (drop k ?sorted))"
      by (metis append_take_drop_id filter_append length_append)
    also have "filter ?Q (drop k ?sorted) = []"
      by (auto simp: filter_empty_conv drop_map)
    finally have "length (filter ?P (filter ?Q (mythicRuns db))) \<le> k"
      by (simp add: le_trans [OF length_filter_le])
    with False show ?thesis
      by (simp add: deleteOldMythicRuns_def Let_def)
  qed
qed

lemma find_app:
  "find P (xs @ ys) = (case find P xs of Some r \<Rightarrow> Some r | None \<Rightarrow> find P ys)"
  by (induction xs) simp_all

lemma mergeLoop_find:
  assumes "fst acc = set (map rr_url (snd acc))"
  shows "find (\<lambda>r. rr_url r = u) (snd (foldl mergeStep acc runs))
           = (case find (\<lambda>r. rr_url r = u) (snd acc) of
                Some r \<Rightarrow> Some r
              | None \<Rightarrow> find (\<lambda>r. rr_url r = u) runs)"
  using assms
proof (induction runs arbitrary: acc)
  case Nil
  show ?case by (simp split: option.splits)
next
  case (Cons x xs)
  show ?case
  proof (cases "rr_url x \<in> fst acc")
    case True
    then have seen: "mergeStep acc x = acc"
      by (simp add: mergeStep_def)
    from True Cons.prems have "find (\<lambda>r. rr_url r = rr_url x) (snd acc) \<noteq> None"
      by (auto simp: find_None_iff)
    then show ?thesis
      using Cons.IH [OF Cons.prems] by (auto simp: seen split: option.splits)
  next
    case False
    then have step: "mergeStep acc x = (insert (rr_url x) (fst acc), snd acc @ [x])"
      by (simp add: mergeStep_def)
    have inv: "fst (mergeStep acc x) = set (map rr_url (snd (mergeStep acc x)))"
      using Cons.prems by (simp add: step)
    show ?thesis
      using Cons.IH [OF inv] by (simp add: step find_app split: option.splits)
  qed
qed

lemma mergeLoop_distinct:
  assumes "fst acc = set (map rr_url (snd acc))" and "distinct (map rr_url (snd acc))"
  shows "distinct (map rr_url (snd (foldl mergeStep acc runs)))"
  using assms by (induction runs arbitrary: acc) (auto simp: mergeStep_def)

lemma mergeRuns_append: "mergeRuns recentRuns bestRuns = snd (foldl mergeStep ({}, []) (recentRuns @ bestRuns))"
  by (simp add: mergeRuns_def)

lemma mergeRuns_first_by_url:
  "find (\<lambda>r. rr_url r = u) (mergeRuns recentRuns bestRuns)
     = find (\<lambda>r. rr_url r = u) (recentRuns @ bestRuns)"
  unfolding mergeRuns_append by (subst mergeLoop_find) simp_all

lemma mergeRuns_distinct: "distinct (map rr_url (mergeRuns recentRuns bestRuns))"
  unfolding mergeRuns_append by (rule mergeLoop_distinct) simp_all

lemma players_upsertMythicRun [simp]: "players (snd (upsertMythicRun ins db)) = players db"
  by (simp add: upsertMythicRun_def Let_def split: option.splits)

lemma syncRunStep_effect:
  "mythicRuns (snd (snd (syncRunStep pid (d, ex, db) run)))
     = mythicRuns (snd (upsertMythicRun (runInsert pid run) db))
   \<and> players (snd (snd (syncRunStep pid (d, ex, db) run)))
     = (if isNewRun d run then players (updatePlayerStats pid (runForStats run) ex db)
        else players db)
   \<and> fst (syncRunStep pid (d, ex, db) run) = markAsSeen d run"
  by (simp add: syncRunStep_def Let_def updatePlayerStats_def updatePlayer_def getPlayer_def
           split: option.splits)

text \<open>
  The two branches of the per-player sync for a player whose upstream profile is found:
  \<^item> guild-run detection on the fetched details of the recent runs happens whatever the
    change detection says: the guild runs and activity events after the sync are those
    that the detection alone produces;
  \<^item> when the change detection finds nothing changed, the result is \<open>skipped\<close> and the
    sync does nothing more than refresh the sync timestamp: no run is merged, stored,
    aggregated or pruned, and the stored runs are what they were;
  \<^item> when it finds a change, the result is \<open>updated\<close>: the profile fields are written,
    recent and best runs are merged, the first 10 merged runs go through the loop that
    asks the deduplicator seeded with the stored runs, stores the run, marks it as seen
    and, if it was new, feeds it to the stats aggregator (\<open>syncRunStep_effect\<close>); then,
    unless the merged list is empty, the player's stored runs are pruned, so that at most 5
    remain;
  \<^item> the merged list has one run per URL, and for every URL it is the first run with
    that URL in the recent runs followed by the best runs.
\<close>

lemma syncPlayer_branches:
  "guildMythicRuns (snd (syncPlayer fetchDetails now cache player (Some profile) db))
     = guildMythicRuns (detectGuildRuns fetchDetails cache profile db)
   \<and> activityEvents (snd (syncPlayer fetchDetails now cache player (Some profile) db))
     = activityEvents (detectGuildRuns fetchDetails cache profile db)
   \<and> (\<not> hasPlayerDataChanged player profile \<longrightarrow>
        syncPlayer fetchDetails now cache player (Some profile) db
          = (sync_skipped,
             updatePlayer (p_id player) (\<lambda>p. p\<lparr>p_lastRioSync := Some now\<rparr>)
               (detectGuildRuns fetchDetails cache profile db))
        \<and> mythicRuns (snd (syncPlayer fetchDetails now cache player (Some profile) db))
            = mythicRuns db)
   \<and> (hasPlayerDataChanged player profile \<longrightarrow>
        syncPlayer fetchDetails now cache player (Some profile) db
          = (sync_updated,
             (let db2 = updatePlayer (p_id player) (profileUpdates profile now)
                          (detectGuildRuns fetchDetails cache profile db);
                  allRuns = mergeRuns (case pf_recent_runs profile of Some rs \<Rightarrow> rs | None \<Rightarrow> [])
                                      (case pf_best_runs profile of Some rs \<Rightarrow> rs | None \<Rightarrow> []);
                  stored = map asExistingRun (getMythicRuns (p_id player) db2)
              in if allRuns = [] then db2
                 else snd (deleteOldMythicRuns (p_id player) 5
                        (snd (snd (foldl (syncRunStep (p_id player))
                                     (newRunDeduplicator stored, stored, db2)
                                     (take 10 allRuns)))))))
        \<and> (mergeRuns (case pf_recent_runs profile of Some rs \<Rightarrow> rs | None \<Rightarrow> [])
                      (case pf_best_runs profile of Some rs \<Rightarrow> rs | None \<Rightarrow> []) \<noteq> [] \<longrightarrow>
             length (filter (\<lambda>r. mr_playerId r = p_id player)
                       (mythicRuns (snd (syncPlayer fetchDetails now cache player (Some profile) db))))
               \<le> 5))
   \<and> distinct (map rr_url
         (mergeRuns (case pf_recent_runs profile of Some rs \<Rightarrow> rs | None \<Rightarrow> [])
                    (case pf_best_runs profile of Some rs \<Rightarrow> rs | None \<Rightarrow> [])))
   \<and> (\<forall>u. find (\<lambda>r. rr_url r = u)
              (mergeRuns (case pf_recent_runs profile of Some rs \<Rightarrow> rs | None \<Rightarrow> [])
                         (case pf_best_runs profile of Some rs \<Rightarrow> rs | None \<Rightarrow> []))
          = find (\<lambda>r. rr_url r = u)
              ((case pf_recent_runs profile of Some rs \<Rightarrow> rs | None \<Rightarrow> [])
               @ (case pf_best_runs profile of Some rs \<Rightarrow> rs | None \<Rightarrow> [])))"
proof -
  let ?recent = "case pf_recent_runs profile of Some rs \<Rightarrow> rs | None \<Rightarrow> []"
  let ?best = "case pf_best_runs profile of Some rs \<Rightarrow> rs | None \<Rightarrow> []"
  have m1: "distinct (map rr_url (mergeRuns ?recent ?best))"
    by (rule mergeRuns_distinct)
  have m2: "\<forall>u. find (\<lambda>r. rr_url r = u) (mergeRuns ?recent ?best)
                = find (\<lambda>r. rr_url r = u) (?recent @ ?best)"
    by (simp add: mergeRuns_first_by_url)
  have branches:
    "guildMythicRuns (snd (syncPlayer fetchDetails now cache player (Some profile) db))
     = guildMythicRuns (detectGuildRuns fetchDetails cache profile db)
   \<and> activityEvents (snd (syncPlayer fetchDetails now cache player (Some profile) db))
     = activityEvents (detectGuildRuns fetchDetails cache profile db)
   \<and> (\<not> hasPlayerDataChanged player profile \<longrightarrow>
        syncPlayer fetchDetails now cache player (Some profile) db
          = (sync_skipped,
             updatePlayer (p_id player) (\<lambda>p. p\<lparr>p_lastRioSync := Some now\<rparr>)
               (detectGuildRuns fetchDetails cache profile db))
        \<and> mythicRuns (snd (syncPlayer fetchDetails now cache player (Some profile) db))
            = mythicRuns db)
   \<and> (hasPlayerDataChanged player profile \<longrightarrow>
        syncPlayer fetchDetails now cache player (Some profile) db
          = (sync_updated,
             (let db2 = updatePlayer (p_id player) (profileUpdates profile now)
                          (detectGuildRuns fetchDetails cache profile db);
                  allRuns = mergeRuns (case pf_recent_runs profile of Some rs \<Rightarrow> rs | None \<Rightarrow> [])
                                      (case pf_best_runs profile of Some rs \<Rightarrow> rs | None \<Rightarrow> []);
                  stored = map asExistingRun (getMythicRuns (p_id player) db2)
              in if allRuns = [] then db2
                 else snd (deleteOldMythicRuns (p_id player) 5
                        (snd (snd (foldl (syncRunStep (p_id player))
                                     (newRunDeduplicator stored, stored, db2)
                                     (take 10 allRuns)))))))
        \<and> (mergeRuns (case pf_recent_runs profile of Some rs \<Rightarrow> rs | None \<Rightarrow> [])
                      (case pf_best_runs profile of Some rs \<Rightarrow> rs | None \<Rightarrow> []) \<noteq> [] \<longrightarrow>
             length (filter (\<lambda>r. mr_playerId r = p_id player)
                       (mythicRuns (snd (syncPlayer fetchDetails now cache player (Some profile) db))))
               \<le> 5))"
  proof (cases "hasPlayerDataChanged player profile")
    case False
    then show ?thesis
      by (simp add: syncPlayer_def Let_def)
  next
    case True
    show ?thesis
    proof (cases "mergeRuns ?recent ?best = []")
      case True
      with \<open>hasPlayerDataChanged player profile\<close> show ?thesis
        by (simp add: syncPlayer_def Let_def)
    next
      case False
      with \<open>hasPlayerDataChanged player profile\<close> show ?thesis
        by (simp add: syncPlayer_def Let_def deleteOldMythicRuns_bound)
    qed
  qed
  from branches m1 m2 show ?thesis
    by (intro conjI) (erule conjE | assumption)+
qed

text \<open>Both branches at concrete inputs: the unchanged profile (score 2000) and the same
  profile with score 2100, for which the run is stored and counted.\<close>

lemma syncPlayer_branches_example:
  "\<not> hasPlayerDataChanged (examplePlayer 1 ''Foo'' ''Realm'' True) (exampleProfile 2000)
   \<and> fst (syncPlayer noDetails 5000 (refreshGuildPlayerCache syncDB)
            (examplePlayer 1 ''Foo'' ''Realm'' True) (Some (exampleProfile 2000)) syncDB)
       = sync_skipped
   \<and> mythicRuns (snd (syncPlayer noDetails 5000 (refreshGuildPlayerCache syncDB)
            (examplePlayer 1 ''Foo'' ''Realm'' True) (Some (exampleProfile 2000)) syncDB))
       = mythicRuns syncDB
   \<and> hasPlayerDataChanged (examplePlayer 1 ''Foo'' ''Realm'' True) (exampleProfile 2100)
   \<and> fst (syncPlayer noDetails 5000 (refreshGuildPlayerCache syncDB)
            (examplePlayer 1 ''Foo'' ''Realm'' True) (Some (exampleProfile 2100)) syncDB)
       = sync_updated
   \<and> length (filter (\<lambda>r. mr_playerId r = p_id (examplePlayer 1 ''Foo'' ''Realm'' True))
               (mythicRuns (snd (syncPlayer noDetails 5000 (refreshGuildPlayerCache syncDB)
                  (examplePlayer 1 ''Foo'' ''Realm'' True) (Some (exampleProfile 2100)) syncDB))))
       \<le> 5"
proof -
  let ?p = "examplePlayer 1 ''Foo'' ''Realm'' True"
  let ?c = "refreshGuildPlayerCache syncDB"
  have same: "\<not> hasPlayerDataChanged ?p (exampleProfile 2000)"
    by code_simp
  have diff: "hasPlayerDataChanged ?p (exampleProfile 2100)"
    by code_simp
  have merged: "mergeRuns (case pf_recent_runs (exampleProfile 2100) of Some rs \<Rightarrow> rs | None \<Rightarrow> [])
                  (case pf_best_runs (exampleProfile 2100) of Some rs \<Rightarrow> rs | None \<Rightarrow> []) \<noteq> []"
    by code_simp
  note S = syncPlayer_branches [of noDetails 5000 ?c ?p "exampleProfile 2000" syncDB]
  note U = syncPlayer_branches [of noDetails 5000 ?c ?p "exampleProfile 2100" syncDB]
  have s1: "fst (syncPlayer noDetails 5000 ?c ?p (Some (exampleProfile 2000)) syncDB) = sync_skipped"
    and s2: "mythicRuns (snd (syncPlayer noDetails 5000 ?c ?p (Some (exampleProfile 2000)) syncDB))
               = mythicRuns syncDB"
    using S same by simp_all
  have u1: "fst (syncPlayer noDetails 5000 ?c ?p (Some (exampleProfile 2100)) syncDB) = sync_updated"
    using U diff by simp
  have u2: "length (filter (\<lambda>r. mr_playerId r = p_id ?p)
               (mythicRuns (snd (syncPlayer noDetails 5000 ?c ?p (Some (exampleProfile 2100)) syncDB))))
             \<le> 5"
    using U diff merged by blast
  show ?thesis
    using same diff s1 s2 u1 u2 by blast
qed

text \<open>
  C6 at a concrete input. The stored player Foo has no stored run and a run counter
  of 0. Its upstream profile is found; the recent and the best runs both hold one run,
  which the deduplicator seeded with the stored runs reports as new.
  \<^item> With the overall score of the stored row (2000) the change detection finds nothing
    changed (\<open>syncPlayer_branches_example\<close>): the sync returns \<open>skipped\<close>, no run is
    stored, the run counters stay 0 and only the sync timestamp is written.
  \<^item> With the same runs and the overall score 2100 the change detection finds a change:
    the sync returns \<open>updated\<close>, the run is stored and the run counters become 1.

  So the merge, the deduplication, the upsert, the aggregation and the pruning depend on
  the outcome of the change detection: they are skipped for an unchanged player.
\<close>

theorem C6_skipped_ingests_nothing:
  "pf_recent_runs (exampleProfile 2000)
       = Some [exampleRun (Some ''https://raider.io/mythic-plus-runs/s/123-8-ara'') 300]
   \<and> pf_best_runs (exampleProfile 2000) = pf_recent_runs (exampleProfile 2000)
   \<and> pf_recent_runs (exampleProfile 2100) = pf_recent_runs (exampleProfile 2000)
   \<and> pf_best_runs (exampleProfile 2100) = pf_recent_runs (exampleProfile 2000)
   \<and> getMythicRuns 1 syncDB = []
   \<and> isNewRun (newRunDeduplicator (map asExistingRun (getMythicRuns 1 syncDB)))
        (exampleRun (Some ''https://raider.io/mythic-plus-runs/s/123-8-ara'') 300)
   \<and> fst (syncPlayer noDetails 5000 (refreshGuildPlayerCache syncDB)
          (examplePlayer 1 ''Foo'' ''Realm'' True) (Some (exampleProfile 2000)) syncDB)
       = sync_skipped
   \<and> mythicRuns (snd (syncPlayer noDetails 5000 (refreshGuildPlayerCache syncDB)
          (examplePlayer 1 ''Foo'' ''Realm'' True) (Some (exampleProfile 2000)) syncDB)) = []
   \<and> map (\<lambda>p. (p_totalRunsTracked p, p_runsInTime p, p_runsByLevelMid p, p_lastRioSync p))
        (players (snd (syncPlayer noDetails 5000 (refreshGuildPlayerCache syncDB)
          (examplePlayer 1 ''Foo'' ''Realm'' True) (Some (exampleProfile 2000)) syncDB)))
       = [(Some 0, Some 0, Some 0, Some 5000)]
   \<and> fst (syncPlayer noDetails 5000 (refreshGuildPlayerCache syncDB)
          (examplePlayer 1 ''Foo'' ''Realm'' True) (Some (exampleProfile 2100)) syncDB)
       = sync_updated
   \<and> map (\<lambda>r. (mr_playerId r, mr_url r, mr_score r))
        (mythicRuns (snd (syncPlayer noDetails 5000 (refreshGuildPlayerCache syncDB)
          (examplePlayer 1 ''Foo'' ''Realm'' True) (Some (exampleProfile 2100)) syncDB)))
       = [(1, Some ''https://raider.io/mythic-plus-runs/s/123-8-ara'', 300)]
   \<and> map (\<lambda>p. (p_totalRunsTracked p, p_runsInTime p, p_runsByLevelMid p, p_lastRioSync p))
        (players (snd (syncPlayer noDetails 5000 (refreshGuildPlayerCache syncDB)
          (examplePlayer 1 ''Foo'' ''Realm'' True) (Some (exampleProfile 2100)) syncDB)))
       = [(Some 1, Some 1, Some 1, Some 5000)]"
  by code_simp

end
